theory Spec2Isabelle
  imports Main "HOL-Library.Sublist"
begin

section \<open>The cluster lifecycle tool (redshift_util.py)\<close>

subsection \<open>Python values, exceptions and the observable world\<close>

text \<open>
  A Python dict with string members is an association list. A value that is either such a
  dict or \<open>None\<close> is a \<open>pydict option\<close>. Truthiness and subscripting follow Python:
  \<open>None\<close> and the empty dict are falsy, \<open>None[k]\<close> raises TypeError, a missing key raises
  KeyError.
\<close>

type_synonym pydict = "(string \<times> string) list"

datatype exn_class =
    ClusterNotFoundFault | ClientError | UsageError | TypeError | KeyError
  | ValueError | IndexError

datatype exn = Exn (exn_class: exn_class) (exn_str: string)

definition truthy :: "pydict option \<Rightarrow> bool" where
  "truthy v = (case v of None \<Rightarrow> False | Some d \<Rightarrow> d \<noteq> [])"

definition subscript :: "pydict option \<Rightarrow> string \<Rightarrow> exn + string" where
  \<open>subscript v k =
     (case v of
        None \<Rightarrow> Inl (Exn TypeError '''NoneType' object is not subscriptable'')
      | Some d \<Rightarrow>
          (case map_of d k of
             None \<Rightarrow> Inl (Exn KeyError ([CHR 0x27] @ k @ [CHR 0x27]))
           | Some s \<Rightarrow> Inr s))\<close>

text \<open>Arguments of a client call, and the call itself: method name, positional and keyword arguments.\<close>

datatype arg = AStr string | AInt int | ABool bool | AStrList "string list"

datatype api_call = Call (api_method: string) (pos_args: "arg list") (kwargs: "(string \<times> arg) list")

text \<open>
  What a run leaves behind: the client calls in the order they were issued, the lines
  printed to standard output, and the seconds slept.
\<close>

record world =
  calls :: "api_call list"
  stdout :: "string list"
  slept :: nat

definition init_world :: world where
  "init_world = \<lparr>calls = [], stdout = [], slept = 0\<rparr>"

text \<open>
  The external services, scripted: what each client call answers (an exception or the
  member of the response that the code reads). The answers of \<open>describe_clusters\<close> are
  indexed by the number of describe calls issued before; an answer is the list of the
  \<open>ClusterStatus\<close> members of the response's \<open>Clusters\<close>. \<open>py_int\<close> is the builtin
  \<open>int\<close> on strings.
\<close>

record env =
  get_role :: "exn + pydict"
  create_role :: "exn + pydict"
  attach_role_policy :: "exn + unit"
  delete_role :: "exn + unit"
  describe_clusters :: "nat \<Rightarrow> exn + string list"
  create_cluster :: "exn + pydict"
  delete_cluster :: "exn + unit"
  py_int :: "string \<Rightarrow> exn + int"

text \<open>The values read from dwh.cfg by \<open>main\<close>.\<close>

record config =
  KEY :: string
  SECRET :: string
  DWH_CLUSTER_TYPE :: string
  DWH_NUM_NODES :: string
  DWH_NODE_TYPE :: string
  DWH_CLUSTER_IDENTIFIER :: string
  DWH_DB :: string
  DWH_DB_USER :: string
  DWH_DB_PASSWORD :: string
  DWH_IAM_ROLE_NAME :: string
  DWH_REGION :: string

subsection \<open>Programs: state passing with exceptions\<close>

type_synonym 'a prog = "world \<Rightarrow> (exn + 'a) \<times> world"

definition ret :: "'a \<Rightarrow> 'a prog" where
  "ret v w = (Inr v, w)"

definition raise :: "exn \<Rightarrow> 'a prog" where
  "raise e w = (Inl e, w)"

definition bind :: "'a prog \<Rightarrow> ('a \<Rightarrow> 'b prog) \<Rightarrow> 'b prog" where
  "bind m f w = (case m w of (Inl e, w') \<Rightarrow> (Inl e, w') | (Inr v, w') \<Rightarrow> f v w')"

definition lift :: "exn + 'a \<Rightarrow> 'a prog" where
  "lift r w = (r, w)"

definition print_line :: "string \<Rightarrow> unit prog" where
  "print_line s w = (Inr (), w\<lparr>stdout := stdout w @ [s]\<rparr>)"

definition sleep :: "nat \<Rightarrow> unit prog" where
  "sleep n w = (Inr (), w\<lparr>slept := slept w + n\<rparr>)"

text \<open>A client call is logged, then answers what the script says.\<close>

definition api :: "api_call \<Rightarrow> exn + 'a \<Rightarrow> 'a prog" where
  "api c r w = (r, w\<lparr>calls := calls w @ [c]\<rparr>)"

text \<open>\<open>try: body  except Exception as e: print(e)\<close>: the function then returns None.\<close>

definition try_except_print :: "'a option prog \<Rightarrow> 'a option prog" where
  "try_except_print body w =
     (case body w of
        (Inl e, w') \<Rightarrow> bind (print_line (exn_str e)) (\<lambda>_. ret None) w'
      | (Inr v, w') \<Rightarrow> (Inr v, w'))"

subsection \<open>The role helpers\<close>

definition assume_role_policy_document :: string where
  \<open>assume_role_policy_document =
     ''{"Statement": [{"Action": "sts:AssumeRole", "Effect": "Allow", "Principal": {"Service": "redshift.amazonaws.com"}}], "Version": "2012-10-17"}''\<close>

definition create_role_call :: "string \<Rightarrow> api_call" where
  "create_role_call name =
     Call ''create_role'' []
       [(''Path'', AStr ''/''),
        (''RoleName'', AStr name),
        (''Description'',
           AStr (''Allows Redshift clusters to '' @ replicate 16 CHR '' '' @
                ''call AWS services on your behalf.'')),
        (''AssumeRolePolicyDocument'', AStr assume_role_policy_document)]"

definition attach_role_policy_call :: "string \<Rightarrow> api_call" where
  "attach_role_policy_call name =
     Call ''attach_role_policy'' []
       [(''RoleName'', AStr name),
        (''PolicyArn'', AStr ''arn:aws:iam::aws:policy/AmazonS3ReadOnlyAccess'')]"

definition create_iam_role :: "env \<Rightarrow> string \<Rightarrow> pydict option prog" where
  "create_iam_role e name =
     try_except_print
       (bind (print_line (''Creating a new IAM Role: '' @ name)) (\<lambda>_.
        bind (api (create_role_call name) (create_role e)) (\<lambda>dwhRole.
        bind (print_line ''Attaching Policy'') (\<lambda>_.
        bind (api (attach_role_policy_call name) (attach_role_policy e)) (\<lambda>_.
        ret (Some dwhRole))))))"

definition delete_iam_role :: "env \<Rightarrow> string \<Rightarrow> pydict option prog" where
  "delete_iam_role e name =
     try_except_print
       (bind (print_line (''Deleting the IAM Role: '' @ name)) (\<lambda>_.
        bind (api (Call ''delete_role'' [AStr name] []) (delete_role e)) (\<lambda>_.
        ret None)))"

definition get_iam_role :: "env \<Rightarrow> string \<Rightarrow> pydict option prog" where
  "get_iam_role e name =
     try_except_print
       (bind (print_line (''Get the IAM Role: '' @ name)) (\<lambda>_.
        bind (api (Call ''get_role'' [] [(''RoleName'', AStr name)]) (get_role e)) (\<lambda>role.
        ret (Some role))))"

subsection \<open>The cluster helpers\<close>

definition describe_clusters_call :: "string \<Rightarrow> api_call" where
  "describe_clusters_call ident =
     Call ''describe_clusters'' [] [(''ClusterIdentifier'', AStr ident)]"

definition n_describe :: "world \<Rightarrow> nat" where
  "n_describe w = length (filter (\<lambda>c. api_method c = ''describe_clusters'') (calls w))"

text \<open>
  What \<open>get_cluster_status\<close> makes of the answer of \<open>describe_clusters\<close>: the status of
  \<open>['Clusters'][0]\<close>, or \<open>'unknown'\<close> when the call raises ClusterNotFoundFault; no
  other exception is caught.
\<close>

definition cluster_status_of :: "exn + string list \<Rightarrow> exn + string" where
  "cluster_status_of r =
     (case r of
        Inr clusters \<Rightarrow>
          (case clusters of
             [] \<Rightarrow> Inl (Exn IndexError ''list index out of range'')
           | myClusterProps # _ \<Rightarrow> Inr myClusterProps)
      | Inl ex \<Rightarrow>
          if exn_class ex = ClusterNotFoundFault then Inr ''unknown'' else Inl ex)"

definition get_cluster_status :: "env \<Rightarrow> string \<Rightarrow> string prog" where
  "get_cluster_status e ident =
     bind (print_line (''Get Redshift cluster status: '' @ ident)) (\<lambda>_ w.
       case api (describe_clusters_call ident) (describe_clusters e (n_describe w)) w of
         (r, w') \<Rightarrow> (cluster_status_of r, w'))"

definition hw_params :: "string \<Rightarrow> string \<Rightarrow> int option \<Rightarrow> (string \<times> arg) list" where
  "hw_params cluster_type node_type num_nodes =
     [(''ClusterType'', AStr cluster_type)] @
     (case num_nodes of None \<Rightarrow> [] | Some n \<Rightarrow> [(''NumberOfNodes'', AInt n)]) @
     [(''NodeType'', AStr node_type)]"

definition create_cluster_call ::
  "(string \<times> arg) list \<Rightarrow> string \<Rightarrow> string \<Rightarrow> string \<Rightarrow> string \<Rightarrow> string \<Rightarrow> api_call" where
  "create_cluster_call hw db ident user password roleArn =
     Call ''create_cluster'' []
       (hw @
        [(''DBName'', AStr db),
         (''ClusterIdentifier'', AStr ident),
         (''MasterUsername'', AStr user),
         (''MasterUserPassword'', AStr password),
         (''IamRoles'', AStrList [roleArn])])"

definition create_redshift_cluster ::
  "env \<Rightarrow> string \<Rightarrow> string \<Rightarrow> string \<Rightarrow> string \<Rightarrow> string \<Rightarrow> string \<Rightarrow> string \<Rightarrow> string
     \<Rightarrow> pydict option prog" where
  "create_redshift_cluster e roleArn cluster_type node_type num_nodes db ident user password =
     try_except_print
       (bind (print_line (''Create Redshift cluster: '' @ ident)) (\<lambda>_.
        bind (if node_type = ''multi-node''
              then bind (lift (py_int e num_nodes)) (\<lambda>n. ret (Some n))
              else ret None) (\<lambda>num.
        bind (api (create_cluster_call (hw_params cluster_type node_type num)
                     db ident user password roleArn)
                  (create_cluster e)) (\<lambda>response.
        ret (Some response)))))"

definition delete_cluster_call :: "string \<Rightarrow> api_call" where
  "delete_cluster_call ident =
     Call ''delete_cluster'' []
       [(''ClusterIdentifier'', AStr ident), (''SkipFinalClusterSnapshot'', ABool True)]"

definition delete_redshift_cluster :: "env \<Rightarrow> string \<Rightarrow> pydict option prog" where
  "delete_redshift_cluster e ident =
     try_except_print
       (bind (print_line (''Delete Redshift cluster: '' @ ident)) (\<lambda>_.
        bind (api (delete_cluster_call ident) (delete_cluster e)) (\<lambda>_.
        ret None)))"

subsection \<open>main\<close>

text \<open>
  \<open>main\<close> first reads dwh.cfg and builds the two clients; neither issues a client call, so
  the model starts from the values read (\<open>config\<close>) and the scripted services (\<open>env\<close>).
  Its three \<open>if\<close> blocks are \<open>status_flow\<close>, \<open>create_flow\<close> and \<open>delete_flow\<close>.

  The two \<open>while i > 0\<close> loops of \<open>main\<close> differ in the status they wait for only; the
  counter \<open>i\<close> starts at 10. A status that ends the loop is left by \<open>break\<close>, before the
  counter, the sleep and the print.
\<close>

fun poll_loop :: "string \<Rightarrow> env \<Rightarrow> string \<Rightarrow> nat \<Rightarrow> unit prog" where
  "poll_loop target e ident 0 = ret ()"
| "poll_loop target e ident (Suc i) =
     bind (get_cluster_status e ident) (\<lambda>status.
       if status = target then ret ()
       else bind (sleep 10) (\<lambda>_.
            bind (print_line status) (\<lambda>_.
            poll_loop target e ident i)))"

definition status_flow :: "env \<Rightarrow> config \<Rightarrow> unit prog" where
  "status_flow e cfg =
     bind (get_cluster_status e (DWH_CLUSTER_IDENTIFIER cfg)) (\<lambda>s. print_line s)"

text \<open>
  The create flow, in two parts: the status check with the creation and the polling it
  guards (\<open>create_cluster_if_absent\<close>), and before it the lookup of the role.
\<close>

definition create_cluster_if_absent :: "env \<Rightarrow> config \<Rightarrow> pydict option \<Rightarrow> unit prog" where
  "create_cluster_if_absent e cfg dwhRole =
     bind (get_cluster_status e (DWH_CLUSTER_IDENTIFIER cfg)) (\<lambda>status.
       if status = ''unknown'' then
         bind (lift (subscript dwhRole ''Arn'')) (\<lambda>roleArn.
         bind (create_redshift_cluster e roleArn (DWH_CLUSTER_TYPE cfg) (DWH_NODE_TYPE cfg)
                 (DWH_NUM_NODES cfg) (DWH_DB cfg) (DWH_CLUSTER_IDENTIFIER cfg)
                 (DWH_DB_USER cfg) (DWH_DB_PASSWORD cfg)) (\<lambda>_.
         bind (sleep 10) (\<lambda>_.
         poll_loop ''available'' e (DWH_CLUSTER_IDENTIFIER cfg) 10)))
       else ret ())"

definition create_flow :: "env \<Rightarrow> config \<Rightarrow> unit prog" where
  "create_flow e cfg =
     bind (get_iam_role e (DWH_IAM_ROLE_NAME cfg)) (\<lambda>found.
     bind (if \<not> truthy found then create_iam_role e (DWH_IAM_ROLE_NAME cfg)
           else ret found) (\<lambda>dwhRole.
     create_cluster_if_absent e cfg dwhRole))"

definition delete_flow :: "env \<Rightarrow> config \<Rightarrow> unit prog" where
  "delete_flow e cfg =
     bind (get_cluster_status e (DWH_CLUSTER_IDENTIFIER cfg)) (\<lambda>status.
       if status = ''available'' then
         bind (delete_redshift_cluster e (DWH_CLUSTER_IDENTIFIER cfg)) (\<lambda>_.
         poll_loop ''unknown'' e (DWH_CLUSTER_IDENTIFIER cfg) 10)
       else ret ())"

definition main :: "env \<Rightarrow> config \<Rightarrow> bool \<Rightarrow> bool \<Rightarrow> bool \<Rightarrow> unit prog" where
  "main e cfg create delete status =
     bind (if status then status_flow e cfg else ret ()) (\<lambda>_.
     bind (if create then create_flow e cfg else ret ()) (\<lambda>_.
     (if delete then delete_flow e cfg else ret ())))"

subsection \<open>The command line\<close>

text \<open>
  The three flags are declared with \<open>MutuallyExclusiveOption\<close>. \<open>opts\<close> is the dict
  the parser hands over: the flags given on the command line, by name. The list
  \<open>mutually_exclusive\<close> is the option's set, in the order it is iterated.
  The call of the base class (click's \<open>Option.handle_parse_result\<close>) yields the flag's
  value: the parsed one, or the default False of a flag that was not given.
\<close>

record option_decl =
  opt_name :: string
  mutually_exclusive :: "string list"

fun join :: "string \<Rightarrow> string list \<Rightarrow> string" where
  "join sep [] = []"
| "join sep [x] = x"
| "join sep (x # y # ys) = x @ sep @ join sep (y # ys)"

definition usage_message :: "option_decl \<Rightarrow> string" where
  \<open>usage_message self =
     ''Illegal usage: `'' @ opt_name self @ ''` is mutually exclusive with arguments `'' @
     join '', '' (mutually_exclusive self) @ ''`.''\<close>

definition handle_parse_result :: "option_decl \<Rightarrow> (string \<times> bool) list \<Rightarrow> exn + bool" where
  "handle_parse_result self opts =
     (if set (mutually_exclusive self) \<inter> set (map fst opts) \<noteq> {}
         \<and> opt_name self \<in> set (map fst opts)
      then Inl (Exn UsageError (usage_message self))
      else Inr (case map_of opts (opt_name self) of None \<Rightarrow> False | Some v \<Rightarrow> v))"

definition create_option :: option_decl where
  "create_option = \<lparr>opt_name = ''create'', mutually_exclusive = [''delete'', ''status'']\<rparr>"

definition delete_option :: option_decl where
  "delete_option = \<lparr>opt_name = ''delete'', mutually_exclusive = [''create'', ''status'']\<rparr>"

definition status_option :: option_decl where
  "status_option = \<lparr>opt_name = ''status'', mutually_exclusive = [''create'', ''delete'']\<rparr>"

definition cli_params :: "option_decl list" where
  "cli_params = [create_option, delete_option, status_option]"

text \<open>
  The command processes its parameters one after the other, in an order that depends on
  the command line, and calls \<open>main\<close> with the values only when none of them raised.
\<close>

fun process_params :: "option_decl list \<Rightarrow> (string \<times> bool) list \<Rightarrow> exn + (string \<times> bool) list" where
  "process_params [] opts = Inr []"
| "process_params (p # ps) opts =
     (case handle_parse_result p opts of
        Inl ex \<Rightarrow> Inl ex
      | Inr v \<Rightarrow>
          (case process_params ps opts of
             Inl ex \<Rightarrow> Inl ex
           | Inr vs \<Rightarrow> Inr ((opt_name p, v) # vs)))"

definition flag :: "(string \<times> bool) list \<Rightarrow> string \<Rightarrow> bool" where
  "flag params name = (case map_of params name of None \<Rightarrow> False | Some v \<Rightarrow> v)"

definition cli :: "env \<Rightarrow> config \<Rightarrow> option_decl list \<Rightarrow> (string \<times> bool) list \<Rightarrow> unit prog" where
  "cli e cfg order opts =
     (case process_params order opts of
        Inl ex \<Rightarrow> raise ex
      | Inr params \<Rightarrow>
          main e cfg (flag params ''create'') (flag params ''delete'') (flag params ''status''))"

section \<open>The SQL catalog (sql_queries.py)\<close>

text \<open>The values the module reads from dwh.cfg when it is loaded.\<close>

record sql_config =
  LOG_DATA :: string
  LOG_JSONPATH :: string
  SONG_DATA :: string
  ARN :: string

text \<open>
  \<open>str.format\<close> on a template whose only braces are the fields \<open>{}\<close>: the fields take
  the arguments in turn, each argument is inserted as it is, and a field with no
  argument left raises IndexError.
\<close>

fun format :: "string \<Rightarrow> string list \<Rightarrow> exn + string" where
  "format [] args = Inr []"
| "format [c] args = Inr [c]"
| "format (c # d # cs) args =
     (if c = CHR ''{'' \<and> d = CHR ''}'' then
        (case args of
           [] \<Rightarrow> Inl (Exn IndexError
                   ''Replacement index 0 out of range for positional args tuple'')
         | a # as \<Rightarrow> (case format cs as of Inl ex \<Rightarrow> Inl ex | Inr r \<Rightarrow> Inr (a @ r)))
      else (case format (d # cs) args of Inl ex \<Rightarrow> Inl ex | Inr r \<Rightarrow> Inr (c # r)))"

definition staging_events_table_drop :: string where
  \<open>staging_events_table_drop =
     ''DROP TABLE IF EXISTS staging_events''\<close>

definition staging_songs_table_drop :: string where
  \<open>staging_songs_table_drop =
     ''DROP TABLE IF EXISTS staging_songs''\<close>

definition songplay_table_drop :: string where
  \<open>songplay_table_drop =
     ''DROP TABLE IF EXISTS songplays''\<close>

definition user_table_drop :: string where
  \<open>user_table_drop =
     ''DROP TABLE IF EXISTS users''\<close>

definition song_table_drop :: string where
  \<open>song_table_drop =
     ''DROP TABLE IF EXISTS songs''\<close>

definition artist_table_drop :: string where
  \<open>artist_table_drop =
     ''DROP TABLE IF EXISTS artists''\<close>

definition time_table_drop :: string where
  \<open>time_table_drop =
     ''DROP TABLE IF EXISTS time''\<close>

definition staging_events_table_create :: string where
  \<open>staging_events_table_create =
     ''\<newline>'' @
     ''CREATE TABLE IF NOT EXISTS staging_events(\<newline>'' @
     ''    artist varchar,\<newline>'' @
     ''    auth varchar,\<newline>'' @
     ''    firstName varchar,\<newline>'' @
     ''    gender varchar,\<newline>'' @
     ''    itemInSession int,\<newline>'' @
     ''    lastName varchar,\<newline>'' @
     ''    length float,\<newline>'' @
     ''    level varchar,\<newline>'' @
     ''    location varchar,\<newline>'' @
     ''    method varchar,\<newline>'' @
     ''    page varchar,\<newline>'' @
     ''    registration float,\<newline>'' @
     ''    sessionId int,\<newline>'' @
     ''    song varchar,\<newline>'' @
     ''    status int,\<newline>'' @
     ''    ts bigint,\<newline>'' @
     ''    userAgent varchar,\<newline>'' @
     ''    userId int\<newline>'' @
     '')\<newline>''\<close>

definition staging_songs_table_create :: string where
  \<open>staging_songs_table_create =
     ''\<newline>'' @
     ''CREATE TABLE IF NOT EXISTS staging_songs(\<newline>'' @
     ''    num_songs int,\<newline>'' @
     ''    artist_id varchar,\<newline>'' @
     ''    artist_latitude float,\<newline>'' @
     ''    artist_longitude float,\<newline>'' @
     ''    artist_location varchar,\<newline>'' @
     ''    artist_name varchar,\<newline>'' @
     ''    song_id varchar,\<newline>'' @
     ''    title varchar,\<newline>'' @
     ''    duration float,\<newline>'' @
     ''    year int\<newline>'' @
     '')\<newline>''\<close>

definition songplay_table_create :: string where
  \<open>songplay_table_create =
     ''\<newline>'' @
     ''CREATE TABLE IF NOT EXISTS songplays(\<newline>'' @
     ''    songplay_id bigint IDENTITY(0,1) PRIMARY KEY,\<newline>'' @
     ''    start_time timestamp NOT NULL,\<newline>'' @
     ''    user_id int NOT NULL,\<newline>'' @
     ''    level varchar NOT NULL,\<newline>'' @
     ''    song_id varchar NOT NULL,\<newline>'' @
     ''    artist_id varchar NOT NULL,\<newline>'' @
     ''    session_id int,\<newline>'' @
     ''    location varchar,\<newline>'' @
     ''    user_agent varchar,\<newline>'' @
     ''    FOREIGN KEY (start_time) REFERENCES time (start_time),\<newline>'' @
     ''    FOREIGN KEY (artist_id) REFERENCES artists (artist_id),\<newline>'' @
     ''    FOREIGN KEY (user_id) REFERENCES users (user_id),\<newline>'' @
     ''    FOREIGN KEY (song_id) REFERENCES songs (song_id)\<newline>'' @
     '')\<newline>''\<close>

definition user_table_create :: string where
  \<open>user_table_create =
     ''\<newline>'' @
     ''CREATE TABLE IF NOT EXISTS users (\<newline>'' @
     ''    user_id int PRIMARY KEY,\<newline>'' @
     ''    first_name varchar NOT NULL,\<newline>'' @
     ''    last_name varchar NOT NULL,\<newline>'' @
     ''    gender varchar(1) NOT NULL,\<newline>'' @
     ''    level varchar NOT NULL\<newline>'' @
     '')\<newline>''\<close>

definition song_table_create :: string where
  \<open>song_table_create =
     ''\<newline>'' @
     ''CREATE TABLE IF NOT EXISTS songs (\<newline>'' @
     ''    song_id varchar PRIMARY KEY,\<newline>'' @
     ''    title varchar NOT NULL,\<newline>'' @
     ''    artist_id varchar NOT NULL,\<newline>'' @
     ''    year int,\<newline>'' @
     ''    duration numeric,\<newline>'' @
     ''    FOREIGN KEY (artist_id) REFERENCES artists (artist_id)\<newline>'' @
     '')\<newline>''\<close>

definition artist_table_create :: string where
  \<open>artist_table_create =
     ''\<newline>'' @
     ''CREATE TABLE IF NOT EXISTS artists (\<newline>'' @
     ''    artist_id varchar PRIMARY KEY,\<newline>'' @
     ''    name varchar NOT NULL,\<newline>'' @
     ''    location varchar,\<newline>'' @
     ''    latitude float,\<newline>'' @
     ''    longitude float\<newline>'' @
     '')\<newline>''\<close>

definition time_table_create :: string where
  \<open>time_table_create =
     ''\<newline>'' @
     ''CREATE TABLE IF NOT EXISTS time (\<newline>'' @
     ''    start_time timestamp PRIMARY KEY,\<newline>'' @
     ''    hour int,\<newline>'' @
     ''    day int,\<newline>'' @
     ''    week int,\<newline>'' @
     ''    month int,\<newline>'' @
     ''    year int,\<newline>'' @
     ''    weekday int\<newline>'' @
     '')\<newline>''\<close>

definition staging_events_copy_template :: string where
  \<open>staging_events_copy_template =
     ''\<newline>'' @
     ''    copy staging_events\<newline>'' @
     ''    from {}\<newline>'' @
     ''    iam_role {}\<newline>'' @
     ''    format as json {}\<newline>''\<close>

definition staging_songs_copy_template :: string where
  \<open>staging_songs_copy_template =
     ''\<newline>'' @
     ''    copy staging_songs\<newline>'' @
     ''    from {}\<newline>'' @
     ''    iam_role {}\<newline>'' @
     ''    json 'auto'\<newline>''\<close>

definition songplay_table_insert :: string where
  \<open>songplay_table_insert =
     ''\<newline>'' @
     ''INSERT INTO songplays (\<newline>'' @
     ''    start_time, user_id, level, song_id,\<newline>'' @
     ''    artist_id, session_id, location, user_agent)\<newline>'' @
     ''SELECT\<newline>'' @
     ''    DATEADD(ms, ts, '1970-01-01 00:00:00') AS start_time,\<newline>'' @
     ''    events.userId as user_id,\<newline>'' @
     ''    events.level,\<newline>'' @
     ''    songs.song_id,\<newline>'' @
     ''    songs.artist_id,\<newline>'' @
     ''    events.sessionId AS session_id,\<newline>'' @
     ''    events.location,\<newline>'' @
     ''    events.userAgent AS user_agent\<newline>'' @
     ''FROM staging_events events\<newline>'' @
     ''JOIN staging_songs songs\<newline>'' @
     ''ON (events.song = songs.title\<newline>'' @
     ''AND events.length = songs.duration\<newline>'' @
     ''AND events.artist = songs.artist_name)\<newline>'' @
     ''WHERE events.page='NextSong';\<newline>''\<close>

definition user_table_insert :: string where
  \<open>user_table_insert =
     ''\<newline>'' @
     ''INSERT INTO users (user_id, first_name, last_name, gender, level)\<newline>'' @
     ''SELECT\<newline>'' @
     ''    DISTINCT\<newline>'' @
     ''    userId as user_id,\<newline>'' @
     ''    firstName as first_name,\<newline>'' @
     ''    lastName as last_name,\<newline>'' @
     ''    gender,\<newline>'' @
     ''    last_value(level) over (\<newline>'' @
     ''            partition by userId\<newline>'' @
     ''            rows between unbounded preceding and unbounded following)\<newline>'' @
     ''FROM staging_events WHERE userId is NOT NULL;\<newline>''\<close>

definition song_table_insert :: string where
  \<open>song_table_insert =
     ''\<newline>'' @
     ''INSERT INTO songs (song_id, title, artist_id, year, duration)\<newline>'' @
     ''SELECT\<newline>'' @
     ''    DISTINCT song_id,\<newline>'' @
     ''    title,\<newline>'' @
     ''    artist_id,\<newline>'' @
     ''    year,\<newline>'' @
     ''    duration\<newline>'' @
     ''FROM staging_songs;\<newline>''\<close>

definition artist_table_insert :: string where
  \<open>artist_table_insert =
     ''\<newline>'' @
     ''INSERT INTO artists (artist_id, name, location, latitude, longitude)\<newline>'' @
     ''SELECT\<newline>'' @
     ''    DISTINCT artist_id,\<newline>'' @
     ''    artist_name,\<newline>'' @
     ''    artist_location,\<newline>'' @
     ''    artist_latitude,\<newline>'' @
     ''    artist_longitude\<newline>'' @
     ''FROM staging_songs;\<newline>''\<close>

definition time_table_insert :: string where
  \<open>time_table_insert =
     ''\<newline>'' @
     ''INSERT INTO time (start_time, hour, day, week, month, year, weekday)\<newline>'' @
     ''SELECT DISTINCT(DATEADD(ms, ts, '1970-01-01 00:00:00')) as start_time,\<newline>'' @
     ''        EXTRACT (hour FROM start_time) AS hour,\<newline>'' @
     ''        EXTRACT (day FROM start_time) AS day,\<newline>'' @
     ''        EXTRACT (week FROM start_time) AS week,\<newline>'' @
     ''        EXTRACT (month FROM start_time) AS month,\<newline>'' @
     ''        EXTRACT (year FROM start_time) AS year,\<newline>'' @
     ''        EXTRACT (weekday FROM start_time) AS weekday\<newline>'' @
     ''FROM staging_events;\<newline>''\<close>

definition staging_events_copy :: "sql_config \<Rightarrow> exn + string" where
  "staging_events_copy c =
     format staging_events_copy_template [LOG_DATA c, ARN c, LOG_JSONPATH c]"

definition staging_songs_copy :: "sql_config \<Rightarrow> exn + string" where
  "staging_songs_copy c = format staging_songs_copy_template [SONG_DATA c, ARN c]"

record catalog =
  create_table_queries :: "string list"
  drop_table_queries :: "string list"
  copy_table_queries :: "string list"
  insert_table_queries :: "string list"

text \<open>Loading the module: the two formatted statements, then the four lists.\<close>

definition sql_queries :: "sql_config \<Rightarrow> exn + catalog" where
  "sql_queries c =
     (case staging_events_copy c of
        Inl ex \<Rightarrow> Inl ex
      | Inr events_copy \<Rightarrow>
          (case staging_songs_copy c of
             Inl ex \<Rightarrow> Inl ex
           | Inr songs_copy \<Rightarrow>
               Inr \<lparr>create_table_queries =
                      [staging_events_table_create, staging_songs_table_create,
                       user_table_create, artist_table_create, song_table_create,
                       time_table_create, songplay_table_create],
                    drop_table_queries =
                      [staging_events_table_drop, staging_songs_table_drop,
                       songplay_table_drop, user_table_drop, song_table_drop,
                       artist_table_drop, time_table_drop],
                    copy_table_queries = [events_copy, songs_copy],
                    insert_table_queries =
                      [user_table_insert, artist_table_insert, song_table_insert,
                       time_table_insert, songplay_table_insert]\<rparr>))"

section \<open>Reference descriptions and sample runs\<close>

text \<open>
  The number of attempts the polling contract allows for a script of statuses: up to the
  first occurrence of the target, and never more than \<open>N\<close>.
\<close>

definition spec_attempts :: "nat \<Rightarrow> string \<Rightarrow> string list \<Rightarrow> nat" where
  "spec_attempts N target script =
     min N (Suc (length (takeWhile (\<lambda>s. s \<noteq> target) script)))"

text \<open>
  The lines a polling loop prints for a script of statuses: the line of
  \<open>get_cluster_status\<close> for every attempt, followed by the status when the loop goes on.
\<close>

definition poll_output :: "string \<Rightarrow> nat \<Rightarrow> string \<Rightarrow> string list \<Rightarrow> string list" where
  "poll_output ident N target script =
     concat (map (\<lambda>s. [''Get Redshift cluster status: '' @ ident, s])
               (take N (takeWhile (\<lambda>s. s \<noteq> target) script)))
     @ (if length (takeWhile (\<lambda>s. s \<noteq> target) script) < N
        then [''Get Redshift cluster status: '' @ ident] else [])"

definition is_cluster_mutation :: "api_call \<Rightarrow> bool" where
  "is_cluster_mutation c = (api_method c = ''create_cluster'' \<or> api_method c = ''delete_cluster'')"

definition not_found_fault :: exn where
  "not_found_fault = Exn ClusterNotFoundFault ''Cluster dwhCluster not found.''"

definition no_such_entity :: exn where
  "no_such_entity = Exn ClientError ''The role with name dwhRole cannot be found.''"

definition access_denied :: exn where
  "access_denied = Exn ClientError ''User is not authorized to perform this action''"

definition demo_role :: pydict where
  "demo_role = [(''RoleName'', ''dwhRole''), (''Arn'', ''arn:aws:iam::123456789012:role/dwhRole'')]"

definition demo_cfg :: config where
  "demo_cfg =
     \<lparr>KEY = ''AKIA'', SECRET = ''secret'', DWH_CLUSTER_TYPE = ''multi-node'',
      DWH_NUM_NODES = ''4'', DWH_NODE_TYPE = ''dc2.large'',
      DWH_CLUSTER_IDENTIFIER = ''dwhCluster'', DWH_DB = ''dwh'', DWH_DB_USER = ''dwhuser'',
      DWH_DB_PASSWORD = ''Passw0rd'', DWH_IAM_ROLE_NAME = ''dwhRole'',
      DWH_REGION = ''us-west-2''\<rparr>"

definition demo_int :: "string \<Rightarrow> exn + int" where
  "demo_int s =
     (if s = ''4'' then Inr 4
      else Inl (Exn ValueError ''invalid literal for int() with base 10''))"

text \<open>A cluster that is absent at first, is being created for two polls and then available.\<close>

definition creating_script :: "nat \<Rightarrow> exn + string list" where
  "creating_script k =
     (if k = 0 then Inl not_found_fault
      else if k < 3 then Inr [''creating'']
      else Inr [''available''])"

definition demo_env :: env where
  "demo_env =
     \<lparr>get_role = Inr demo_role, create_role = Inr demo_role, attach_role_policy = Inr (),
      delete_role = Inr (), describe_clusters = creating_script,
      create_cluster = Inr [(''ClusterIdentifier'', ''dwhCluster'')],
      delete_cluster = Inr (), py_int = demo_int\<rparr>"

text \<open>The same services when the role lookup and the role creation both fail.\<close>

definition failing_iam_env :: env where
  "failing_iam_env = demo_env\<lparr>get_role := Inl no_such_entity, create_role := Inl access_denied\<rparr>"

text \<open>A cluster that exists and is available at every call.\<close>

definition available_script :: "nat \<Rightarrow> exn + string list" where
  "available_script k = Inr [''available'']"

definition running_env :: env where
  "running_env = demo_env\<lparr>describe_clusters := available_script\<rparr>"

text \<open>The calls of one client method in a run, and whether a call carries a keyword.\<close>

definition issued :: "string \<Rightarrow> world \<Rightarrow> api_call list" where
  "issued m w = filter (\<lambda>c. api_method c = m) (calls w)"

definition has_kwarg :: "string \<Rightarrow> api_call \<Rightarrow> bool" where
  "has_kwarg k c = (k \<in> fst ` set (kwargs c))"

text \<open>The services when every mutation and the role lookup fail.\<close>

definition all_failing_env :: env where
  "all_failing_env =
     demo_env\<lparr>get_role := Inl no_such_entity, create_role := Inl access_denied,
       delete_role := Inl access_denied, create_cluster := Inl access_denied,
       delete_cluster := Inl access_denied\<rparr>"

text \<open>The services when the role does not exist yet.\<close>

definition absent_role_env :: env where
  "absent_role_env = demo_env\<lparr>get_role := Inl no_such_entity\<rparr>"

text \<open>The services when only the attachment of the policy fails.\<close>

definition attach_failing_env :: env where
  "attach_failing_env = demo_env\<lparr>attach_role_policy := Inl access_denied\<rparr>"

text \<open>A service that reports the status string \<open>'unknown'\<close> for a cluster that exists.\<close>

definition unknown_script :: "nat \<Rightarrow> exn + string list" where
  "unknown_script k = Inr [''unknown'']"

definition odd_status_env :: env where
  "odd_status_env = demo_env\<lparr>describe_clusters := unknown_script\<rparr>"

text \<open>A describe call that fails for another reason than a missing cluster.\<close>

definition denied_script :: "nat \<Rightarrow> exn + string list" where
  "denied_script k = Inl access_denied"

definition denied_env :: env where
  "denied_env = demo_env\<lparr>describe_clusters := denied_script\<rparr>"

definition demo_sql_config :: sql_config where
  "demo_sql_config =
     \<lparr>LOG_DATA = ''s3://udacity-dend/log_data'',
      LOG_JSONPATH = ''s3://udacity-dend/log_json_path.json'',
      SONG_DATA = ''s3://udacity-dend/song_data'',
      ARN = ''arn:aws:iam::123456789012:role/dwhRole''\<rparr>"

section \<open>Properties\<close>

subsection \<open>Running the helpers\<close>

lemmas prog_defs =
  bind_def ret_def raise_def lift_def print_line_def sleep_def api_def try_except_print_def

lemma n_describe_simps [simp]:
  "n_describe (w\<lparr>stdout := out\<rparr>) = n_describe w"
  "n_describe (w\<lparr>slept := t\<rparr>) = n_describe w"
  "n_describe (w\<lparr>calls := calls w @ [describe_clusters_call ident]\<rparr>) = Suc (n_describe w)"
  "n_describe init_world = 0"
  by (simp_all add: n_describe_def describe_clusters_call_def init_world_def)

lemma get_cluster_status_run:
  "get_cluster_status e ident w =
     (cluster_status_of (describe_clusters e (n_describe w)),
      w\<lparr>stdout := stdout w @ [''Get Redshift cluster status: '' @ ident],
        calls := calls w @ [describe_clusters_call ident]\<rparr>)"
  by (simp add: get_cluster_status_def prog_defs)

lemma poll_loop_run:
  "\<forall>j<length script. cluster_status_of (describe_clusters e (n_describe w + j)) = Inr (script ! j)
   \<Longrightarrow> t \<in> set script \<or> i \<le> length script
   \<Longrightarrow> \<exists>w'. poll_loop t e ident i w = (Inr (), w')
         \<and> calls w' = calls w @ replicate (spec_attempts i t script) (describe_clusters_call ident)
         \<and> stdout w' = stdout w @ poll_output ident i t script
         \<and> slept w' = slept w + 10 * min i (length (takeWhile (\<lambda>s. s \<noteq> t) script))"
proof (induction i arbitrary: w script)
  case 0
  then show ?case by (simp add: ret_def spec_attempts_def poll_output_def)
next
  case (Suc i)
  from Suc.prems(2) obtain s rest where script: "script = s # rest"
    by (cases script) auto
  from Suc.prems(1) script have s: "cluster_status_of (describe_clusters e (n_describe w)) = Inr s"
    by auto
  show ?case
  proof (cases "s = t")
    case True
    then show ?thesis
      using s script
      by (simp add: get_cluster_status_run bind_def ret_def spec_attempts_def poll_output_def)
  next
    case False
    define w2 where "w2 = w\<lparr>stdout := stdout w @ [''Get Redshift cluster status: '' @ ident],
        calls := calls w @ [describe_clusters_call ident], slept := slept w + 10,
        stdout := stdout w @ [''Get Redshift cluster status: '' @ ident, s]\<rparr>"
    have nd: "n_describe w2 = Suc (n_describe w)"
      by (simp add: w2_def n_describe_def describe_clusters_call_def)
    have p1: "\<forall>j<length rest. cluster_status_of (describe_clusters e (n_describe w2 + j)) = Inr (rest ! j)"
    proof (intro allI impI)
      fix j assume "j < length rest"
      then have "Suc j < length script" by (simp add: script)
      with Suc.prems(1) have "cluster_status_of (describe_clusters e (n_describe w + Suc j)) = Inr (script ! Suc j)"
        by blast
      then show "cluster_status_of (describe_clusters e (n_describe w2 + j)) = Inr (rest ! j)"
        by (simp add: nd script)
    qed
    have p2: "t \<in> set rest \<or> i \<le> length rest"
      using Suc.prems(2) False by (auto simp: script)
    from Suc.IH[OF p1 p2] obtain w' where
      r: "poll_loop t e ident i w2 = (Inr (), w')"
      and c: "calls w' = calls w2 @ replicate (spec_attempts i t rest) (describe_clusters_call ident)"
      and o: "stdout w' = stdout w2 @ poll_output ident i t rest"
      and sl: "slept w' = slept w2 + 10 * min i (length (takeWhile (\<lambda>s. s \<noteq> t) rest))"
      by blast
    have step: "poll_loop t e ident (Suc i) w = poll_loop t e ident i w2"
      using s False
      by (simp add: get_cluster_status_run bind_def sleep_def print_line_def w2_def)
    show ?thesis
      using r c o sl False
      by (simp add: step script w2_def spec_attempts_def poll_output_def del: poll_loop.simps)
  qed
qed

lemma takeWhile_stops:
  "t \<in> set xs \<Longrightarrow> length (takeWhile (\<lambda>s. s \<noteq> t) xs) < length xs"
  by (induction xs) auto

lemma spec_attempts_le: "spec_attempts N t script \<le> N"
  by (simp add: spec_attempts_def)

lemma spec_attempts_before:
  "Suc j < spec_attempts N t script \<Longrightarrow> script ! j \<noteq> t"
proof -
  assume "Suc j < spec_attempts N t script"
  then have j: "j < length (takeWhile (\<lambda>s. s \<noteq> t) script)"
    by (simp add: spec_attempts_def)
  then have "takeWhile (\<lambda>s. s \<noteq> t) script ! j \<in> set (takeWhile (\<lambda>s. s \<noteq> t) script)"
    by (rule nth_mem)
  then have "takeWhile (\<lambda>s. s \<noteq> t) script ! j \<noteq> t"
    by (auto dest: set_takeWhileD)
  then show ?thesis using j by (simp add: takeWhile_nth)
qed

lemma spec_attempts_stop:
  assumes "t \<in> set script \<or> N \<le> length script" and "spec_attempts N t script < N"
  shows "script ! (spec_attempts N t script - 1) = t"
proof -
  let ?k = "length (takeWhile (\<lambda>s. s \<noteq> t) script)"
  from assms(2) have n: "spec_attempts N t script = Suc ?k" and lt: "Suc ?k < N"
    by (simp_all add: spec_attempts_def)
  have "?k < length script"
  proof (cases "t \<in> set script")
    case True
    then show ?thesis by (rule takeWhile_stops)
  next
    case False
    with assms(1) lt show ?thesis by simp
  qed
  then have "\<not> (script ! ?k \<noteq> t)" by (rule nth_length_takeWhile)
  then show ?thesis by (simp add: n)
qed

subsection \<open>The polling loops\<close>

text \<open>
  C1. Let the successive calls of \<open>describe_clusters\<close> issued from the loop on yield the
  statuses of a script that holds the target or at least 10 statuses. Then a polling loop
  of \<open>main\<close> (the one of the create flow waits for \<open>'available'\<close>, the one of the delete
  flow for \<open>'unknown'\<close>) ends without an exception, it issues describe calls only, as many as
  the first occurrence of the target in the script needs and at most 10, and it stops
  before 10 attempts only on the target.
\<close>

theorem polling_loop_bounded:
  assumes "\<forall>j<length script.
             cluster_status_of (describe_clusters e (n_describe w + j)) = Inr (script ! j)"
    and "t \<in> set script \<or> 10 \<le> length script"
  shows "\<exists>w'. poll_loop t e ident 10 w = (Inr (), w')
           \<and> calls w' = calls w @ replicate (spec_attempts 10 t script) (describe_clusters_call ident)
           \<and> spec_attempts 10 t script \<le> 10
           \<and> (spec_attempts 10 t script < 10 \<longrightarrow> script ! (spec_attempts 10 t script - 1) = t)
           \<and> (\<forall>j. Suc j < spec_attempts 10 t script \<longrightarrow> script ! j \<noteq> t)"
proof -
  from poll_loop_run[OF assms, of ident] obtain w' where
    "poll_loop t e ident 10 w = (Inr (), w')"
    "calls w' = calls w @ replicate (spec_attempts 10 t script) (describe_clusters_call ident)"
    by blast
  then show ?thesis
    using spec_attempts_le[of 10 t script] spec_attempts_stop[OF assms(2)]
      spec_attempts_before[of _ 10 t script]
    by blast
qed

lemma creating_script_statuses:
  "\<forall>j<length [''unknown'', ''creating'', ''creating'', ''available''].
      cluster_status_of (describe_clusters demo_env (n_describe init_world + j))
        = Inr ([''unknown'', ''creating'', ''creating'', ''available''] ! j)"
  by (simp add: demo_env_def creating_script_def cluster_status_of_def not_found_fault_def
      less_Suc_eq nth_Cons')

theorem polling_loop_bounded_witness:
  "\<exists>w'. poll_loop ''available'' demo_env ''dwhCluster'' 10 init_world = (Inr (), w')
      \<and> calls w' = replicate 4 (describe_clusters_call ''dwhCluster'')"
proof -
  have h2: "''available'' \<in> set [''unknown'', ''creating'', ''creating'', ''available'']
            \<or> 10 \<le> length [''unknown'', ''creating'', ''creating'', ''available'']"
    by simp
  have n: "spec_attempts 10 ''available'' [''unknown'', ''creating'', ''creating'', ''available''] = 4"
    by (simp add: spec_attempts_def)
  have c0: "calls init_world = []"
    by (simp add: init_world_def)
  from polling_loop_bounded[OF creating_script_statuses h2, of "''dwhCluster''"]
  obtain w' where "poll_loop ''available'' demo_env ''dwhCluster'' 10 init_world = (Inr (), w')"
    and "calls w' = calls init_world @ replicate
           (spec_attempts 10 ''available'' [''unknown'', ''creating'', ''creating'', ''available''])
           (describe_clusters_call ''dwhCluster'')"
    by blast
  then show ?thesis
    by (simp add: n c0)
qed

subsection \<open>What the polling loop prints\<close>

lemma taken_not_target:
  "x \<in> set (take N (takeWhile (\<lambda>s. s \<noteq> t) script)) \<Longrightarrow> x \<noteq> t"
proof -
  assume "x \<in> set (take N (takeWhile (\<lambda>s. s \<noteq> t) script))"
  then have "x \<in> set (takeWhile (\<lambda>s. s \<noteq> t) script)"
    by (rule in_set_takeD)
  then show "x \<noteq> t"
    by (rule set_takeWhileD[THEN conjunct2])
qed

lemma interleaved_lines:
  "x \<in> set (concat (map (\<lambda>s. [h, s]) xs) @ (if c then [h] else [])) \<Longrightarrow> x = h \<or> x \<in> set xs"
  by (induction xs) (auto split: if_splits)

lemma poll_output_lines:
  assumes "x \<in> set (poll_output ident N t script)"
  shows "x = ''Get Redshift cluster status: '' @ ident \<or> x \<noteq> t"
proof -
  from assms have "x = ''Get Redshift cluster status: '' @ ident
      \<or> x \<in> set (take N (takeWhile (\<lambda>s. s \<noteq> t) script))"
    unfolding poll_output_def by (rule interleaved_lines)
  then show ?thesis
    using taken_not_target[of x N t script] by blast
qed

text \<open>
  C9, as amended. Under the hypotheses of C1, the polling loop of the create flow prints,
  for every attempt, the progress line of \<open>get_cluster_status\<close>, followed by the observed
  status whenever that status is not \<open>'available'\<close>. The observation \<open>'available'\<close> on which
  the loop stops is not printed: the loop prints no line \<open>'available'\<close> at all.
\<close>
theorem create_polling_prints_statuses_before_stop:
  assumes "\<forall>j<length script.
             cluster_status_of (describe_clusters e (n_describe w + j)) = Inr (script ! j)"
    and "''available'' \<in> set script \<or> 10 \<le> length script"
  shows "\<exists>w'. poll_loop ''available'' e ident 10 w = (Inr (), w')
           \<and> stdout w' = stdout w @ poll_output ident 10 ''available'' script
           \<and> ''available'' \<notin> set (poll_output ident 10 ''available'' script)"
proof -
  have na: "''available'' \<notin> set (poll_output ident 10 ''available'' script)"
  proof
    assume "''available'' \<in> set (poll_output ident 10 ''available'' script)"
    then have "''available'' = ''Get Redshift cluster status: '' @ ident \<or> ''available'' \<noteq> ''available''"
      by (rule poll_output_lines)
    then show False by simp
  qed
  from poll_loop_run[OF assms, of ident] obtain w' where
    "poll_loop ''available'' e ident 10 w = (Inr (), w')"
    "stdout w' = stdout w @ poll_output ident 10 ''available'' script"
    by blast
  with na show ?thesis by blast
qed

subsection \<open>The helpers and the flows, step by step\<close>

lemma api_method_simps [simp]:
  "api_method (describe_clusters_call ident) = ''describe_clusters''"
  "api_method (create_role_call name) = ''create_role''"
  "api_method (attach_role_policy_call name) = ''attach_role_policy''"
  "api_method (delete_cluster_call ident) = ''delete_cluster''"
  "api_method (create_cluster_call hw db ident user pw arn) = ''create_cluster''"
  by (simp_all add: describe_clusters_call_def create_role_call_def attach_role_policy_call_def
      delete_cluster_call_def create_cluster_call_def)

lemma get_iam_role_run:
  "get_iam_role e name w =
     (case get_role e of
        Inl ex \<Rightarrow>
          (Inr None,
           w\<lparr>stdout := stdout w @ [''Get the IAM Role: '' @ name, exn_str ex],
             calls := calls w @ [Call ''get_role'' [] [(''RoleName'', AStr name)]]\<rparr>)
      | Inr role \<Rightarrow>
          (Inr (Some role),
           w\<lparr>stdout := stdout w @ [''Get the IAM Role: '' @ name],
             calls := calls w @ [Call ''get_role'' [] [(''RoleName'', AStr name)]]\<rparr>))"
  by (simp add: get_iam_role_def prog_defs split: sum.splits)

lemma create_iam_role_run:
  "create_iam_role e name w =
     (case create_role e of
        Inl ex \<Rightarrow>
          (Inr None,
           w\<lparr>stdout := stdout w @ [''Creating a new IAM Role: '' @ name, exn_str ex],
             calls := calls w @ [create_role_call name]\<rparr>)
      | Inr role \<Rightarrow>
          (case attach_role_policy e of
             Inl ex \<Rightarrow>
               (Inr None,
                w\<lparr>stdout := stdout w @ [''Creating a new IAM Role: '' @ name,
                                         ''Attaching Policy'', exn_str ex],
                  calls := calls w @ [create_role_call name, attach_role_policy_call name]\<rparr>)
           | Inr _ \<Rightarrow>
               (Inr (Some role),
                w\<lparr>stdout := stdout w @ [''Creating a new IAM Role: '' @ name,
                                         ''Attaching Policy''],
                  calls := calls w @ [create_role_call name, attach_role_policy_call name]\<rparr>)))"
  by (simp add: create_iam_role_def prog_defs split: sum.splits)

lemma delete_iam_role_run:
  "delete_iam_role e name w =
     (Inr None,
      w\<lparr>stdout := stdout w @ (''Deleting the IAM Role: '' @ name)
                  # (case delete_role e of Inl ex \<Rightarrow> [exn_str ex] | Inr _ \<Rightarrow> []),
        calls := calls w @ [Call ''delete_role'' [AStr name] []]\<rparr>)"
  by (simp add: delete_iam_role_def prog_defs split: sum.splits)

lemma delete_redshift_cluster_run:
  "delete_redshift_cluster e ident w =
     (Inr None,
      w\<lparr>stdout := stdout w @ (''Delete Redshift cluster: '' @ ident)
                  # (case delete_cluster e of Inl ex \<Rightarrow> [exn_str ex] | Inr _ \<Rightarrow> []),
        calls := calls w @ [delete_cluster_call ident]\<rparr>)"
  by (simp add: delete_redshift_cluster_def prog_defs split: sum.splits)

lemma create_redshift_cluster_run:
  "create_redshift_cluster e arn ct nt nn db ident user pw w =
     (case (if nt = ''multi-node'' then map_sum id Some (py_int e nn) else Inr None) of
        Inl ex \<Rightarrow>
          (Inr None,
           w\<lparr>stdout := stdout w @ [''Create Redshift cluster: '' @ ident, exn_str ex]\<rparr>)
      | Inr num \<Rightarrow>
          (case create_cluster e of
             Inl ex \<Rightarrow>
               (Inr None,
                w\<lparr>stdout := stdout w @ [''Create Redshift cluster: '' @ ident, exn_str ex],
                  calls := calls w @ [create_cluster_call (hw_params ct nt num) db ident user pw arn]\<rparr>)
           | Inr response \<Rightarrow>
               (Inr (Some response),
                w\<lparr>stdout := stdout w @ [''Create Redshift cluster: '' @ ident],
                  calls := calls w @ [create_cluster_call (hw_params ct nt num) db ident user pw arn]\<rparr>)))"
  by (simp add: create_redshift_cluster_def prog_defs split: sum.splits)

lemma poll_loop_only_describes:
  "\<exists>k. calls (snd (poll_loop t e ident i w)) = calls w @ replicate k (describe_clusters_call ident)"
proof (induction i arbitrary: w)
  case 0
  then show ?case by (simp add: ret_def)
next
  case (Suc i)
  let ?w1 = "w\<lparr>stdout := stdout w @ [''Get Redshift cluster status: '' @ ident],
        calls := calls w @ [describe_clusters_call ident]\<rparr>"
  show ?case
  proof (cases "cluster_status_of (describe_clusters e (n_describe w))")
    case (Inl ex)
    then have "calls (snd (poll_loop t e ident (Suc i) w))
        = calls w @ replicate 1 (describe_clusters_call ident)"
      by (simp add: get_cluster_status_run bind_def)
    then show ?thesis by blast
  next
    case (Inr s)
    show ?thesis
    proof (cases "s = t")
      case True
      with Inr have "calls (snd (poll_loop t e ident (Suc i) w))
          = calls w @ replicate 1 (describe_clusters_call ident)"
        by (simp add: get_cluster_status_run bind_def ret_def)
      then show ?thesis by blast
    next
      case False
      let ?w2 = "?w1\<lparr>slept := slept w + 10,
                       stdout := stdout w @ [''Get Redshift cluster status: '' @ ident, s]\<rparr>"
      from Suc.IH[of ?w2] obtain k where
        k: "calls (snd (poll_loop t e ident i ?w2)) = calls ?w2 @ replicate k (describe_clusters_call ident)"
        by blast
      from Inr False have "poll_loop t e ident (Suc i) w = poll_loop t e ident i ?w2"
        by (simp add: get_cluster_status_run bind_def sleep_def print_line_def)
      with k have "calls (snd (poll_loop t e ident (Suc i) w))
          = calls w @ replicate (Suc k) (describe_clusters_call ident)"
        by (simp del: poll_loop.simps)
      then show ?thesis by blast
    qed
  qed
qed

lemma filter_calls_poll_loop:
  "\<not> P (describe_clusters_call ident)
   \<Longrightarrow> filter P (calls (snd (poll_loop t e ident i w))) = filter P (calls w)"
proof -
  assume np: "\<not> P (describe_clusters_call ident)"
  from poll_loop_only_describes[of t e ident i w] obtain k where
    "calls (snd (poll_loop t e ident i w)) = calls w @ replicate k (describe_clusters_call ident)"
    by blast
  then show ?thesis using np by simp
qed

lemma main_create_only: "main e cfg True False False w = create_flow e cfg w"
proof (cases "create_flow e cfg w")
  case (Pair r w')
  then show ?thesis
    by (cases r) (simp_all add: main_def bind_def ret_def)
qed

lemma main_delete_only: "main e cfg False True False w = delete_flow e cfg w"
  by (simp add: main_def bind_def ret_def)

lemma main_status_only: "main e cfg False False True w = status_flow e cfg w"
proof (cases "status_flow e cfg w")
  case (Pair r w')
  then show ?thesis
    by (cases r) (simp_all add: main_def bind_def ret_def)
qed

lemma n_describe_calls [simp]:
  "n_describe (w\<lparr>calls := cs\<rparr>) = length (filter (\<lambda>c. api_method c = ''describe_clusters'') cs)"
  by (simp add: n_describe_def)

lemma init_world_simps [simp]:
  "calls init_world = []" "stdout init_world = []" "slept init_world = 0"
  by (simp_all add: init_world_def)

lemma create_cluster_if_absent_other_status:
  "cluster_status_of (describe_clusters e (n_describe w)) \<noteq> Inr ''unknown''
   \<Longrightarrow> create_cluster_if_absent e cfg dwhRole w =
       (map_sum id (\<lambda>_. ()) (cluster_status_of (describe_clusters e (n_describe w))),
        w\<lparr>stdout := stdout w @ [''Get Redshift cluster status: '' @ DWH_CLUSTER_IDENTIFIER cfg],
          calls := calls w @ [describe_clusters_call (DWH_CLUSTER_IDENTIFIER cfg)]\<rparr>)"
  by (cases "cluster_status_of (describe_clusters e (n_describe w))")
     (simp_all add: create_cluster_if_absent_def get_cluster_status_run bind_def ret_def)

lemma create_cluster_if_absent_no_role:
  \<open>cluster_status_of (describe_clusters e (n_describe w)) = Inr ''unknown''
   \<Longrightarrow> create_cluster_if_absent e cfg None w =
       (Inl (Exn TypeError '''NoneType' object is not subscriptable''),
        w\<lparr>stdout := stdout w @ [''Get Redshift cluster status: '' @ DWH_CLUSTER_IDENTIFIER cfg],
          calls := calls w @ [describe_clusters_call (DWH_CLUSTER_IDENTIFIER cfg)]\<rparr>)\<close>
  by (simp add: create_cluster_if_absent_def get_cluster_status_run bind_def lift_def
      subscript_def)

lemma create_cluster_if_absent_filter:
  assumes "m \<noteq> ''describe_clusters''" and "m \<noteq> ''create_cluster''"
  shows "filter (\<lambda>c. api_method c = m) (calls (snd (create_cluster_if_absent e cfg dwhRole w)))
           = filter (\<lambda>c. api_method c = m) (calls w)"
proof (cases "cluster_status_of (describe_clusters e (n_describe w)) = Inr ''unknown''")
  case False
  then show ?thesis
    using assms by (simp add: create_cluster_if_absent_other_status)
next
  case True
  show ?thesis
  proof (cases "subscript dwhRole ''Arn''")
    case (Inl ex)
    with True show ?thesis
      using assms
      by (simp add: create_cluster_if_absent_def get_cluster_status_run bind_def lift_def)
  next
    case (Inr arn)
    with True show ?thesis
      using assms
      by (simp add: create_cluster_if_absent_def get_cluster_status_run bind_def lift_def
          sleep_def create_redshift_cluster_run filter_calls_poll_loop
          split: sum.split)
  qed
qed

lemmas role_simps =
  create_flow_def get_iam_role_run create_iam_role_run bind_def ret_def truthy_def

subsection \<open>The status gates of the create and delete flows\<close>

lemma create_flow_no_mutation:
  assumes s: "cluster_status_of (describe_clusters e 0) \<noteq> Inr ''unknown''"
  shows "filter is_cluster_mutation (calls (snd (create_flow e cfg init_world))) = []"
  using s
  apply (cases "get_role e"; cases "create_role e"; cases "attach_role_policy e")
         apply (simp_all add: role_simps create_cluster_if_absent_other_status
      is_cluster_mutation_def)
  done

lemma delete_flow_no_mutation:
  assumes s: "cluster_status_of (describe_clusters e 0) \<noteq> Inr ''available''"
  shows "filter is_cluster_mutation (calls (snd (delete_flow e cfg init_world))) = []"
  using s
  by (cases "cluster_status_of (describe_clusters e 0)")
     (simp_all add: delete_flow_def get_cluster_status_run bind_def ret_def
      is_cluster_mutation_def)

text \<open>
  C2. Run \<open>main\<close> with only the create flag: unless the status that the flow's status check
  observes is \<open>'unknown'\<close>, the run issues no \<open>create_cluster\<close> and no \<open>delete_cluster\<close>
  call. Run it with only the delete flag: unless the observed status is \<open>'available'\<close>, the
  run issues no such call either. A status check that raises counts as another status.
\<close>
theorem cluster_mutation_only_on_expected_status:
  "(fst (get_cluster_status e (DWH_CLUSTER_IDENTIFIER cfg) init_world) \<noteq> Inr ''unknown'' \<longrightarrow>
      filter is_cluster_mutation (calls (snd (main e cfg True False False init_world))) = [])
   \<and> (fst (get_cluster_status e (DWH_CLUSTER_IDENTIFIER cfg) init_world) \<noteq> Inr ''available'' \<longrightarrow>
      filter is_cluster_mutation (calls (snd (main e cfg False True False init_world))) = [])"
  by (simp add: get_cluster_status_run main_create_only main_delete_only
      create_flow_no_mutation delete_flow_no_mutation)

theorem cluster_mutation_only_on_expected_status_witness:
  "fst (get_cluster_status running_env (DWH_CLUSTER_IDENTIFIER demo_cfg) init_world)
      \<noteq> Inr ''unknown''
   \<and> filter is_cluster_mutation
        (calls (snd (main running_env demo_cfg True False False init_world))) = []
   \<and> fst (get_cluster_status demo_env (DWH_CLUSTER_IDENTIFIER demo_cfg) init_world)
      \<noteq> Inr ''available''
   \<and> filter is_cluster_mutation
        (calls (snd (main demo_env demo_cfg False True False init_world))) = []"
proof -
  have a: "fst (get_cluster_status running_env (DWH_CLUSTER_IDENTIFIER demo_cfg) init_world)
      \<noteq> Inr ''unknown''"
    by (simp add: get_cluster_status_run running_env_def available_script_def
        cluster_status_of_def)
  have b: "fst (get_cluster_status demo_env (DWH_CLUSTER_IDENTIFIER demo_cfg) init_world)
      \<noteq> Inr ''available''"
    by (simp add: get_cluster_status_run demo_env_def creating_script_def
        cluster_status_of_def not_found_fault_def)
  from a b show ?thesis
    using cluster_mutation_only_on_expected_status[of running_env demo_cfg]
      cluster_mutation_only_on_expected_status[of demo_env demo_cfg]
    by blast
qed

subsection \<open>The role of the create flow\<close>

lemma create_flow_role_calls:
  "filter (\<lambda>c. api_method c = ''create_role'') (calls (snd (create_flow e cfg init_world)))
     = (if truthy (case get_role e of Inl _ \<Rightarrow> None | Inr role \<Rightarrow> Some role) then []
        else [create_role_call (DWH_IAM_ROLE_NAME cfg)])"
  apply (cases "get_role e"; cases "create_role e"; cases "attach_role_policy e")
         apply (simp_all add: role_simps create_cluster_if_absent_filter)
  done

lemma create_flow_attach_calls:
  "filter (\<lambda>c. api_method c = ''attach_role_policy'') (calls (snd (create_flow e cfg init_world)))
     = (if truthy (case get_role e of Inl _ \<Rightarrow> None | Inr role \<Rightarrow> Some role) then []
        else (case create_role e of
                Inl _ \<Rightarrow> []
              | Inr _ \<Rightarrow> [attach_role_policy_call (DWH_IAM_ROLE_NAME cfg)]))"
  apply (cases "get_role e"; cases "create_role e"; cases "attach_role_policy e")
         apply (simp_all add: role_simps create_cluster_if_absent_filter)
  done

lemma role_lookup_result:
  "fst (get_iam_role e name w) = Inr (case get_role e of Inl _ \<Rightarrow> None | Inr role \<Rightarrow> Some role)"
  by (simp add: get_iam_role_run split: sum.split)

text \<open>
  C5, as amended. Let \<open>found\<close> be what the role lookup of the create flow returns. When
  it is truthy (an existing role), the run issues no \<open>create_role\<close> and no
  \<open>attach_role_policy\<close> call. When it is not, the run issues exactly one \<open>create_role\<close> call;
  it issues exactly one \<open>attach_role_policy\<close> call, with the fixed read-only storage policy,
  when the \<open>create_role\<close> call returns, and none when that call raises.
\<close>
theorem role_created_only_when_lookup_fails:
  assumes "fst (get_iam_role e (DWH_IAM_ROLE_NAME cfg) init_world) = Inr found"
  shows "(truthy found \<longrightarrow>
            issued ''create_role'' (snd (main e cfg True False False init_world)) = []
          \<and> issued ''attach_role_policy'' (snd (main e cfg True False False init_world)) = [])
       \<and> (\<not> truthy found \<longrightarrow>
            issued ''create_role'' (snd (main e cfg True False False init_world))
              = [create_role_call (DWH_IAM_ROLE_NAME cfg)]
          \<and> issued ''attach_role_policy'' (snd (main e cfg True False False init_world))
              = (case create_role e of
                   Inl _ \<Rightarrow> []
                 | Inr _ \<Rightarrow> [attach_role_policy_call (DWH_IAM_ROLE_NAME cfg)]))"
proof -
  from assms have "found = (case get_role e of Inl _ \<Rightarrow> None | Inr role \<Rightarrow> Some role)"
    by (simp add: role_lookup_result)
  then show ?thesis
    by (simp add: issued_def main_create_only create_flow_role_calls create_flow_attach_calls)
qed

theorem role_created_only_when_lookup_fails_witness:
  "fst (get_iam_role demo_env (DWH_IAM_ROLE_NAME demo_cfg) init_world) = Inr (Some demo_role)
   \<and> truthy (Some demo_role)
   \<and> issued ''create_role'' (snd (main demo_env demo_cfg True False False init_world)) = []
   \<and> issued ''attach_role_policy'' (snd (main demo_env demo_cfg True False False init_world)) = []
   \<and> fst (get_iam_role absent_role_env (DWH_IAM_ROLE_NAME demo_cfg) init_world) = Inr None
   \<and> \<not> truthy None
   \<and> issued ''create_role'' (snd (main absent_role_env demo_cfg True False False init_world))
        = [create_role_call ''dwhRole'']
   \<and> issued ''attach_role_policy''
        (snd (main absent_role_env demo_cfg True False False init_world))
        = [attach_role_policy_call ''dwhRole'']"
proof -
  have a: "fst (get_iam_role demo_env (DWH_IAM_ROLE_NAME demo_cfg) init_world)
      = Inr (Some demo_role)"
    by (simp add: get_iam_role_run demo_env_def)
  have b: "fst (get_iam_role absent_role_env (DWH_IAM_ROLE_NAME demo_cfg) init_world) = Inr None"
    by (simp add: get_iam_role_run absent_role_env_def demo_env_def)
  have c: "truthy (Some demo_role)" "\<not> truthy None"
    by (simp_all add: truthy_def demo_role_def)
  have d: "create_role absent_role_env = Inr demo_role" "DWH_IAM_ROLE_NAME demo_cfg = ''dwhRole''"
    by (simp_all add: absent_role_env_def demo_env_def demo_cfg_def)
  show ?thesis
    using role_created_only_when_lookup_fails[OF a] role_created_only_when_lookup_fails[OF b]
      a b c d
    by simp
qed

text \<open>
  C5 as stated fails when the creation of the role fails: the lookup finds no role, one
  \<open>create_role\<close> call is issued, and no \<open>attach_role_policy\<close> call follows.
\<close>
theorem policy_attachment_counterexample:
  "fst (get_iam_role failing_iam_env (DWH_IAM_ROLE_NAME demo_cfg) init_world) = Inr None
   \<and> issued ''create_role'' (snd (main failing_iam_env demo_cfg True False False init_world))
        = [create_role_call ''dwhRole'']
   \<and> issued ''attach_role_policy''
        (snd (main failing_iam_env demo_cfg True False False init_world)) = []"
  by (simp add: issued_def main_create_only create_flow_role_calls create_flow_attach_calls
      get_iam_role_run failing_iam_env_def demo_env_def demo_cfg_def truthy_def)

subsection \<open>Masked failures\<close>

text \<open>
  C8. When the role lookup and the role creation both raise, both helpers return None;
  when the cluster is then observed as \<open>'unknown'\<close>, the create flow subscripts None to read
  the role's ARN and ends with the TypeError of that subscript, before any
  \<open>create_cluster\<close> call.
\<close>
theorem masked_role_failures_crash_create_flow:
  assumes "get_role e = Inl ex1" and "create_role e = Inl ex2"
    and "fst (get_cluster_status e (DWH_CLUSTER_IDENTIFIER cfg) init_world) = Inr ''unknown''"
  shows \<open>fst (get_iam_role e (DWH_IAM_ROLE_NAME cfg) init_world) = Inr None
       \<and> fst (create_iam_role e (DWH_IAM_ROLE_NAME cfg) init_world) = Inr None
       \<and> fst (main e cfg True False False init_world)
           = Inl (Exn TypeError '''NoneType' object is not subscriptable'')
       \<and> issued ''create_cluster'' (snd (main e cfg True False False init_world)) = []\<close>
proof -
  from assms(3) have s: "cluster_status_of (describe_clusters e 0) = Inr ''unknown''"
    by (simp add: get_cluster_status_run)
  show ?thesis
    using assms(1,2) s
    by (simp add: main_create_only role_simps create_cluster_if_absent_no_role issued_def)
qed

theorem masked_role_failures_crash_create_flow_witness:
  \<open>get_role failing_iam_env = Inl no_such_entity
   \<and> create_role failing_iam_env = Inl access_denied
   \<and> fst (get_cluster_status failing_iam_env (DWH_CLUSTER_IDENTIFIER demo_cfg) init_world)
       = Inr ''unknown''
   \<and> fst (main failing_iam_env demo_cfg True False False init_world)
       = Inl (Exn TypeError '''NoneType' object is not subscriptable'')\<close>
proof -
  have a: "get_role failing_iam_env = Inl no_such_entity"
    and b: "create_role failing_iam_env = Inl access_denied"
    by (simp_all add: failing_iam_env_def)
  have c: "fst (get_cluster_status failing_iam_env (DWH_CLUSTER_IDENTIFIER demo_cfg) init_world)
       = Inr ''unknown''"
    by (simp add: get_cluster_status_run failing_iam_env_def demo_env_def creating_script_def
        cluster_status_of_def not_found_fault_def)
  show ?thesis
    using masked_role_failures_crash_create_flow[OF a b c] a b c by simp
qed

text \<open>
  C7. Whenever the client call inside \<open>get_iam_role\<close>, \<open>create_iam_role\<close> (either of its
  two calls), \<open>delete_iam_role\<close>, \<open>create_redshift_cluster\<close> or \<open>delete_redshift_cluster\<close>
  raises an exception, the helper does not raise: it prints the exception after its
  progress lines and returns None. (For \<open>create_redshift_cluster\<close> the client call is
  reached when the node count, if it is read, converts to an integer.)
\<close>
theorem helpers_mask_api_failures:
  "(get_role e = Inl ex \<longrightarrow>
      fst (get_iam_role e name w) = Inr None
      \<and> stdout (snd (get_iam_role e name w))
          = stdout w @ [''Get the IAM Role: '' @ name, exn_str ex])
   \<and> (create_role e = Inl ex \<longrightarrow>
      fst (create_iam_role e name w) = Inr None
      \<and> stdout (snd (create_iam_role e name w))
          = stdout w @ [''Creating a new IAM Role: '' @ name, exn_str ex])
   \<and> (create_role e = Inr role \<and> attach_role_policy e = Inl ex \<longrightarrow>
      fst (create_iam_role e name w) = Inr None
      \<and> stdout (snd (create_iam_role e name w))
          = stdout w @ [''Creating a new IAM Role: '' @ name, ''Attaching Policy'', exn_str ex])
   \<and> (delete_role e = Inl ex \<longrightarrow>
      fst (delete_iam_role e name w) = Inr None
      \<and> stdout (snd (delete_iam_role e name w))
          = stdout w @ [''Deleting the IAM Role: '' @ name, exn_str ex])
   \<and> ((nt = ''multi-node'' \<longrightarrow> py_int e nn = Inr n) \<and> create_cluster e = Inl ex \<longrightarrow>
      fst (create_redshift_cluster e arn ct nt nn db ident user pw w) = Inr None
      \<and> stdout (snd (create_redshift_cluster e arn ct nt nn db ident user pw w))
          = stdout w @ [''Create Redshift cluster: '' @ ident, exn_str ex])
   \<and> (delete_cluster e = Inl ex \<longrightarrow>
      fst (delete_redshift_cluster e ident w) = Inr None
      \<and> stdout (snd (delete_redshift_cluster e ident w))
          = stdout w @ [''Delete Redshift cluster: '' @ ident, exn_str ex])"
proof (intro conjI impI)
  assume "get_role e = Inl ex"
  then show "fst (get_iam_role e name w) = Inr None"
    and "stdout (snd (get_iam_role e name w))
          = stdout w @ [''Get the IAM Role: '' @ name, exn_str ex]"
    by (simp_all add: get_iam_role_run)
next
  assume "create_role e = Inl ex"
  then show "fst (create_iam_role e name w) = Inr None"
    and "stdout (snd (create_iam_role e name w))
          = stdout w @ [''Creating a new IAM Role: '' @ name, exn_str ex]"
    by (simp_all add: create_iam_role_run)
next
  assume "create_role e = Inr role \<and> attach_role_policy e = Inl ex"
  then show "fst (create_iam_role e name w) = Inr None"
    and "stdout (snd (create_iam_role e name w))
          = stdout w @ [''Creating a new IAM Role: '' @ name, ''Attaching Policy'', exn_str ex]"
    by (simp_all add: create_iam_role_run)
next
  assume "delete_role e = Inl ex"
  then show "fst (delete_iam_role e name w) = Inr None"
    and "stdout (snd (delete_iam_role e name w))
          = stdout w @ [''Deleting the IAM Role: '' @ name, exn_str ex]"
    by (simp_all add: delete_iam_role_run)
next
  assume "(nt = ''multi-node'' \<longrightarrow> py_int e nn = Inr n) \<and> create_cluster e = Inl ex"
  then show "fst (create_redshift_cluster e arn ct nt nn db ident user pw w) = Inr None"
    and "stdout (snd (create_redshift_cluster e arn ct nt nn db ident user pw w))
          = stdout w @ [''Create Redshift cluster: '' @ ident, exn_str ex]"
    by (simp_all add: create_redshift_cluster_run)
next
  assume "delete_cluster e = Inl ex"
  then show "fst (delete_redshift_cluster e ident w) = Inr None"
    and "stdout (snd (delete_redshift_cluster e ident w))
          = stdout w @ [''Delete Redshift cluster: '' @ ident, exn_str ex]"
    by (simp_all add: delete_redshift_cluster_run)
qed

theorem helpers_mask_api_failures_witness:
  "get_role all_failing_env = Inl no_such_entity
   \<and> fst (get_iam_role all_failing_env ''dwhRole'' init_world) = Inr None
   \<and> create_role all_failing_env = Inl access_denied
   \<and> fst (create_iam_role all_failing_env ''dwhRole'' init_world) = Inr None
   \<and> delete_role all_failing_env = Inl access_denied
   \<and> fst (delete_iam_role all_failing_env ''dwhRole'' init_world) = Inr None
   \<and> create_cluster all_failing_env = Inl access_denied
   \<and> fst (create_redshift_cluster all_failing_env ''arn'' ''multi-node'' ''dc2.large'' ''4''
             ''dwh'' ''dwhCluster'' ''dwhuser'' ''Passw0rd'' init_world) = Inr None
   \<and> delete_cluster all_failing_env = Inl access_denied
   \<and> fst (delete_redshift_cluster all_failing_env ''dwhCluster'' init_world) = Inr None
   \<and> create_role attach_failing_env = Inr demo_role
   \<and> attach_role_policy attach_failing_env = Inl access_denied
   \<and> fst (create_iam_role attach_failing_env ''dwhRole'' init_world) = Inr None
   \<and> stdout (snd (create_iam_role attach_failing_env ''dwhRole'' init_world))
       = [''Creating a new IAM Role: dwhRole'', ''Attaching Policy'', exn_str access_denied]"
proof -
  have a: "get_role all_failing_env = Inl no_such_entity"
    "create_role all_failing_env = Inl access_denied"
    "delete_role all_failing_env = Inl access_denied"
    "create_cluster all_failing_env = Inl access_denied"
    "delete_cluster all_failing_env = Inl access_denied"
    by (simp_all add: all_failing_env_def)
  have b: "create_role attach_failing_env = Inr demo_role"
    "attach_role_policy attach_failing_env = Inl access_denied"
    by (simp_all add: attach_failing_env_def demo_env_def)
  have c: "''dc2.large'' \<noteq> ''multi-node''"
    by simp
  note t1 = helpers_mask_api_failures[of all_failing_env no_such_entity "''dwhRole''" init_world]
  note t2 = helpers_mask_api_failures[of all_failing_env access_denied "''dwhRole''" init_world
      _ "''dc2.large''" "''4''" 4 "''arn''" "''multi-node''" "''dwh''" "''dwhCluster''"
      "''dwhuser''" "''Passw0rd''"]
  note t3 = helpers_mask_api_failures[of attach_failing_env access_denied "''dwhRole''" init_world
      demo_role]
  show ?thesis
    using t1 t2 t3 a b c by simp
qed

subsection \<open>The parameters of the create-cluster call\<close>

lemma has_number_of_nodes:
  "has_kwarg ''NumberOfNodes'' (create_cluster_call (hw_params ct nt num) db ident user pw arn)
     = (num \<noteq> None)"
  by (cases num) (simp_all add: has_kwarg_def create_cluster_call_def hw_params_def)

text \<open>
  C10. Every \<open>create_cluster\<close> call that \<open>create_redshift_cluster\<close> issues carries the
  keyword \<open>NumberOfNodes\<close> if and only if \<open>DWH_NODE_TYPE\<close> is \<open>'multi-node'\<close>. One call is
  issued, except that none is when the node type is \<open>'multi-node'\<close> and the node count does
  not convert to an integer. Changing \<open>DWH_CLUSTER_TYPE\<close> changes nothing about the
  presence of \<open>NumberOfNodes\<close>.
\<close>
theorem number_of_nodes_sent_iff_node_type_multi_node:
  "list_all (\<lambda>c. has_kwarg ''NumberOfNodes'' c = (nt = ''multi-node''))
     (issued ''create_cluster''
        (snd (create_redshift_cluster e arn ct nt nn db ident user pw init_world)))
   \<and> length (issued ''create_cluster''
        (snd (create_redshift_cluster e arn ct nt nn db ident user pw init_world)))
       = (if nt = ''multi-node'' \<and> isl (py_int e nn) then 0 else 1)
   \<and> map (has_kwarg ''NumberOfNodes'')
        (issued ''create_cluster''
           (snd (create_redshift_cluster e arn ct nt nn db ident user pw init_world)))
     = map (has_kwarg ''NumberOfNodes'')
        (issued ''create_cluster''
           (snd (create_redshift_cluster e arn ct' nt nn db ident user pw init_world)))"
  by (cases "py_int e nn"; cases "create_cluster e")
     (simp_all add: create_redshift_cluster_run issued_def has_number_of_nodes)

theorem number_of_nodes_sent_iff_node_type_multi_node_witness:
  "issued ''create_cluster''
     (snd (create_redshift_cluster demo_env ''arn'' ''single-node'' ''multi-node'' ''4''
             ''dwh'' ''dwhCluster'' ''dwhuser'' ''Passw0rd'' init_world))
     = [create_cluster_call
          [(''ClusterType'', AStr ''single-node''), (''NumberOfNodes'', AInt 4),
           (''NodeType'', AStr ''multi-node'')]
          ''dwh'' ''dwhCluster'' ''dwhuser'' ''Passw0rd'' ''arn'']
   \<and> list_all (\<lambda>c. has_kwarg ''NumberOfNodes'' c = (''multi-node'' = ''multi-node''))
        (issued ''create_cluster''
           (snd (create_redshift_cluster demo_env ''arn'' ''single-node'' ''multi-node'' ''4''
                   ''dwh'' ''dwhCluster'' ''dwhuser'' ''Passw0rd'' init_world)))
   \<and> issued ''create_cluster''
        (snd (create_redshift_cluster demo_env ''arn'' ''multi-node'' ''dc2.large'' ''4''
                ''dwh'' ''dwhCluster'' ''dwhuser'' ''Passw0rd'' init_world))
     = [create_cluster_call
          [(''ClusterType'', AStr ''multi-node''), (''NodeType'', AStr ''dc2.large'')]
          ''dwh'' ''dwhCluster'' ''dwhuser'' ''Passw0rd'' ''arn'']
   \<and> list_all (\<lambda>c. has_kwarg ''NumberOfNodes'' c = (''dc2.large'' = ''multi-node''))
        (issued ''create_cluster''
           (snd (create_redshift_cluster demo_env ''arn'' ''multi-node'' ''dc2.large'' ''4''
                   ''dwh'' ''dwhCluster'' ''dwhuser'' ''Passw0rd'' init_world)))"
proof -
  have a: "issued ''create_cluster''
     (snd (create_redshift_cluster demo_env ''arn'' ''single-node'' ''multi-node'' ''4''
             ''dwh'' ''dwhCluster'' ''dwhuser'' ''Passw0rd'' init_world))
     = [create_cluster_call
          [(''ClusterType'', AStr ''single-node''), (''NumberOfNodes'', AInt 4),
           (''NodeType'', AStr ''multi-node'')]
          ''dwh'' ''dwhCluster'' ''dwhuser'' ''Passw0rd'' ''arn'']"
    by (simp add: create_redshift_cluster_run issued_def demo_env_def demo_int_def hw_params_def)
  have b: "issued ''create_cluster''
        (snd (create_redshift_cluster demo_env ''arn'' ''multi-node'' ''dc2.large'' ''4''
                ''dwh'' ''dwhCluster'' ''dwhuser'' ''Passw0rd'' init_world))
     = [create_cluster_call
          [(''ClusterType'', AStr ''multi-node''), (''NodeType'', AStr ''dc2.large'')]
          ''dwh'' ''dwhCluster'' ''dwhuser'' ''Passw0rd'' ''arn'']"
    by (simp add: create_redshift_cluster_run issued_def demo_env_def demo_int_def hw_params_def)
  from number_of_nodes_sent_iff_node_type_multi_node[of "''multi-node''" demo_env "''arn''"
      "''single-node''" "''4''" "''dwh''" "''dwhCluster''" "''dwhuser''" "''Passw0rd''"]
  have c: "list_all (\<lambda>c. has_kwarg ''NumberOfNodes'' c = (''multi-node'' = ''multi-node''))
        (issued ''create_cluster''
           (snd (create_redshift_cluster demo_env ''arn'' ''single-node'' ''multi-node'' ''4''
                   ''dwh'' ''dwhCluster'' ''dwhuser'' ''Passw0rd'' init_world)))"
    by (rule conjunct1)
  from number_of_nodes_sent_iff_node_type_multi_node[of "''dc2.large''" demo_env "''arn''"
      "''multi-node''" "''4''" "''dwh''" "''dwhCluster''" "''dwhuser''" "''Passw0rd''"]
  have d: "list_all (\<lambda>c. has_kwarg ''NumberOfNodes'' c = (''dc2.large'' = ''multi-node''))
        (issued ''create_cluster''
           (snd (create_redshift_cluster demo_env ''arn'' ''multi-node'' ''dc2.large'' ''4''
                   ''dwh'' ''dwhCluster'' ''dwhuser'' ''Passw0rd'' init_world)))"
    by (rule conjunct1)
  from a b c d show ?thesis by (intro conjI)
qed

subsection \<open>Mutually exclusive flags\<close>

lemma cli_param_cases:
  "p \<in> set cli_params \<Longrightarrow> p = create_option \<or> p = delete_option \<or> p = status_option"
  by (simp add: cli_params_def)

lemma given_option_raises:
  assumes p: "p \<in> set cli_params"
    and a: "a \<in> {''create'', ''delete'', ''status''}"
    and b: "b \<in> {''create'', ''delete'', ''status''}"
    and ab: "a \<noteq> b"
    and ain: "a \<in> fst ` set opts" and bin: "b \<in> fst ` set opts"
    and given: "opt_name p \<in> fst ` set opts"
  shows "handle_parse_result p opts = Inl (Exn UsageError (usage_message p))"
proof -
  have "set (mutually_exclusive p) \<inter> fst ` set opts \<noteq> {}"
  proof -
    from cli_param_cases[OF p] a b ab
    have "a \<in> set (mutually_exclusive p) \<or> b \<in> set (mutually_exclusive p)"
      by (auto simp: create_option_def delete_option_def status_option_def)
    with ain bin show ?thesis by blast
  qed
  with given show ?thesis
    by (simp add: handle_parse_result_def)
qed

lemma process_params_raises:
  assumes a: "a \<in> {''create'', ''delete'', ''status''}"
    and b: "b \<in> {''create'', ''delete'', ''status''}"
    and ab: "a \<noteq> b"
    and ain: "a \<in> fst ` set opts" and bin: "b \<in> fst ` set opts"
  shows "set ps \<subseteq> set cli_params \<Longrightarrow> \<exists>p \<in> set ps. opt_name p \<in> fst ` set opts
         \<Longrightarrow> \<exists>q \<in> set ps. process_params ps opts = Inl (Exn UsageError (usage_message q))"
proof (induction ps)
  case Nil
  then show ?case by simp
next
  case (Cons p ps)
  from Cons.prems(1) have p: "p \<in> set cli_params" and ps: "set ps \<subseteq> set cli_params"
    by simp_all
  show ?case
  proof (cases "opt_name p \<in> fst ` set opts")
    case True
    from given_option_raises[OF p a b ab ain bin True] show ?thesis
      by simp
  next
    case False
    then have ok: "handle_parse_result p opts
        = Inr (case map_of opts (opt_name p) of None \<Rightarrow> False | Some v \<Rightarrow> v)"
      by (simp add: handle_parse_result_def)
    from False Cons.prems(2) have "\<exists>p \<in> set ps. opt_name p \<in> fst ` set opts"
      by auto
    from Cons.IH[OF ps this] obtain q where "q \<in> set ps"
      and "process_params ps opts = Inl (Exn UsageError (usage_message q))"
      by blast
    then show ?thesis
      by (auto simp: ok)
  qed
qed

text \<open>
  C3. When two different flags among create, delete and status are both given on the
  command line, then in whatever order the command processes its three options, the
  invocation ends with the UsageError of one of them, and the world is as before: no
  client call has been issued.
\<close>
theorem exclusive_flags_rejected_before_any_call:
  assumes "a \<in> {''create'', ''delete'', ''status''}"
    and "b \<in> {''create'', ''delete'', ''status''}"
    and "a \<noteq> b"
    and "a \<in> fst ` set opts" and "b \<in> fst ` set opts"
    and "set order = set cli_params"
  shows "\<exists>q \<in> set cli_params.
           cli e cfg order opts w = (Inl (Exn UsageError (usage_message q)), w)"
proof -
  have "\<exists>p \<in> set cli_params. opt_name p = a"
    using assms(1) by (auto simp: cli_params_def create_option_def delete_option_def status_option_def)
  with assms(4,6) have given: "\<exists>p \<in> set order. opt_name p \<in> fst ` set opts"
    by auto
  from assms(6) have sub: "set order \<subseteq> set cli_params"
    by simp
  from process_params_raises[OF assms(1,2,3,4,5) sub given] obtain q where
    "q \<in> set order" and "process_params order opts = Inl (Exn UsageError (usage_message q))"
    by blast
  with assms(6) show ?thesis
    by (auto simp: cli_def raise_def)
qed

theorem exclusive_flags_rejected_before_any_call_witness:
  "\<exists>q \<in> set cli_params.
     cli demo_env demo_cfg cli_params [(''create'', True), (''status'', True)] init_world
       = (Inl (Exn UsageError (usage_message q)), init_world)"
proof -
  have a: "''create'' \<in> {''create'', ''delete'', ''status''}"
    and b: "''status'' \<in> {''create'', ''delete'', ''status''}"
    and c: "''create'' \<noteq> ''status''"
    and d: "''create'' \<in> fst ` set [(''create'', True), (''status'', True)]"
    and e: "''status'' \<in> fst ` set [(''create'', True), (''status'', True)]"
    and f: "set cli_params = set cli_params"
    by simp_all
  show ?thesis
    by (rule exclusive_flags_rejected_before_any_call[OF a b c d e f])
qed

subsection \<open>The status of an absent cluster\<close>

text \<open>
  C4 as stated fails for a service that reports the status string \<open>'unknown'\<close> for a cluster
  that exists: \<open>get_cluster_status\<close> returns the very marker of an absent cluster.
\<close>
theorem absent_marker_counterexample:
  "describe_clusters odd_status_env (n_describe init_world) = Inr [''unknown'']
   \<and> fst (get_cluster_status odd_status_env ''dwhCluster'' init_world) = Inr ''unknown''"
  by (simp add: get_cluster_status_run odd_status_env_def unknown_script_def
      cluster_status_of_def)

text \<open>
  C4, as amended. \<open>get_cluster_status\<close> returns \<open>'unknown'\<close> exactly when the describe call
  raises ClusterNotFoundFault or the first described cluster itself has the status
  \<open>'unknown'\<close>; the status of a described cluster is returned as it is reported; and a
  describe call that raises any other exception makes \<open>get_cluster_status\<close> raise it.
\<close>
theorem cluster_status_passes_report_through:
  "((fst (get_cluster_status e ident w) = Inr ''unknown'')
      = ((\<exists>ex. describe_clusters e (n_describe w) = Inl ex
                \<and> exn_class ex = ClusterNotFoundFault)
         \<or> (\<exists>rest. describe_clusters e (n_describe w) = Inr (''unknown'' # rest))))
   \<and> (describe_clusters e (n_describe w) = Inr (s # rest) \<longrightarrow>
        fst (get_cluster_status e ident w) = Inr s)
   \<and> (describe_clusters e (n_describe w) = Inl ex \<and> exn_class ex \<noteq> ClusterNotFoundFault \<longrightarrow>
        fst (get_cluster_status e ident w) = Inl ex)"
proof (intro conjI impI)
  show "(fst (get_cluster_status e ident w) = Inr ''unknown'')
      = ((\<exists>ex. describe_clusters e (n_describe w) = Inl ex
                \<and> exn_class ex = ClusterNotFoundFault)
         \<or> (\<exists>rest. describe_clusters e (n_describe w) = Inr (''unknown'' # rest)))"
  proof (cases "describe_clusters e (n_describe w)")
    case (Inl ex)
    then show ?thesis
      by (simp add: get_cluster_status_run cluster_status_of_def)
  next
    case (Inr clusters)
    then show ?thesis
      by (cases clusters) (simp_all add: get_cluster_status_run cluster_status_of_def)
  qed
next
  assume "describe_clusters e (n_describe w) = Inr (s # rest)"
  then show "fst (get_cluster_status e ident w) = Inr s"
    by (simp add: get_cluster_status_run cluster_status_of_def)
next
  assume "describe_clusters e (n_describe w) = Inl ex \<and> exn_class ex \<noteq> ClusterNotFoundFault"
  then show "fst (get_cluster_status e ident w) = Inl ex"
    by (simp add: get_cluster_status_run cluster_status_of_def)
qed

theorem cluster_status_passes_report_through_witness:
  "describe_clusters demo_env (n_describe init_world) = Inl not_found_fault
   \<and> exn_class not_found_fault = ClusterNotFoundFault
   \<and> fst (get_cluster_status demo_env ''dwhCluster'' init_world) = Inr ''unknown''
   \<and> describe_clusters running_env (n_describe init_world) = Inr [''available'']
   \<and> fst (get_cluster_status running_env ''dwhCluster'' init_world) = Inr ''available''
   \<and> describe_clusters denied_env (n_describe init_world) = Inl access_denied
   \<and> exn_class access_denied \<noteq> ClusterNotFoundFault
   \<and> fst (get_cluster_status denied_env ''dwhCluster'' init_world) = Inl access_denied"
proof -
  have a: "describe_clusters demo_env (n_describe init_world) = Inl not_found_fault"
    "exn_class not_found_fault = ClusterNotFoundFault"
    by (simp_all add: demo_env_def creating_script_def not_found_fault_def)
  have b: "describe_clusters running_env (n_describe init_world) = Inr [''available'']"
    by (simp add: running_env_def available_script_def)
  have c: "describe_clusters denied_env (n_describe init_world) = Inl access_denied"
    "exn_class access_denied \<noteq> ClusterNotFoundFault"
    by (simp_all add: denied_env_def denied_script_def access_denied_def)
  note t1 = cluster_status_passes_report_through[of demo_env "''dwhCluster''" init_world]
  note t2 = cluster_status_passes_report_through[of running_env "''dwhCluster''" init_world
      "''available''" "[]"]
  note t3 = cluster_status_passes_report_through[of denied_env "''dwhCluster''" init_world
      _ _ access_denied]
  have u: "fst (get_cluster_status demo_env ''dwhCluster'' init_world) = Inr ''unknown''"
    using t1 a by blast
  have v: "fst (get_cluster_status running_env ''dwhCluster'' init_world) = Inr ''available''"
    using t2 b by blast
  have x: "fst (get_cluster_status denied_env ''dwhCluster'' init_world) = Inl access_denied"
    using t3 c by blast
  from a b c u v x show ?thesis by (intro conjI)
qed

subsection \<open>The SQL catalog\<close>

lemma staging_events_copy_text:
  "staging_events_copy c =
     Inr (''\<newline>    copy staging_events\<newline>    from '' @ LOG_DATA c @
          ''\<newline>    iam_role '' @ ARN c @
          ''\<newline>    format as json '' @ LOG_JSONPATH c @ ''\<newline>'')"
  by (simp add: staging_events_copy_def staging_events_copy_template_def)

lemma staging_songs_copy_text:
  \<open>staging_songs_copy c =
     Inr (''\<newline>    copy staging_songs\<newline>    from '' @ SONG_DATA c @
          ''\<newline>    iam_role '' @ ARN c @
          ''\<newline>    json 'auto'\<newline>'')\<close>
  by (simp add: staging_songs_copy_def staging_songs_copy_template_def)

lemma sublist_inside: "sublist x (p @ x @ s)"
  by (auto simp: sublist_def)

lemma sublist_inside2: "sublist x (p @ a @ q @ x @ s)"
  using sublist_inside[of x "p @ a @ q" s] by simp

lemma sublist_inside3: "sublist x (p @ a @ q @ b @ r @ x @ s)"
  using sublist_inside[of x "p @ a @ q @ b @ r" s] by simp

text \<open>
  C6. Loading the catalog succeeds for every configuration. The two COPY statements are
  the templates with \<open>LOG_DATA\<close>, the role ARN and \<open>LOG_JSONPATH\<close>, respectively
  \<open>SONG_DATA\<close> and the role ARN, inserted as they are, so each of these values is a
  contiguous part of its statement. The drop, create and insert lists are the same for
  any two configurations.
\<close>
theorem copy_statements_embed_configuration:
  \<open>\<exists>cat cat'. sql_queries c = Inr cat \<and> sql_queries c' = Inr cat'
     \<and> copy_table_queries cat =
         [''\<newline>    copy staging_events\<newline>    from '' @ LOG_DATA c @
          ''\<newline>    iam_role '' @ ARN c @
          ''\<newline>    format as json '' @ LOG_JSONPATH c @ ''\<newline>'',
          ''\<newline>    copy staging_songs\<newline>    from '' @ SONG_DATA c @
          ''\<newline>    iam_role '' @ ARN c @
          ''\<newline>    json 'auto'\<newline>'']
     \<and> sublist (LOG_DATA c) (copy_table_queries cat ! 0)
     \<and> sublist (ARN c) (copy_table_queries cat ! 0)
     \<and> sublist (LOG_JSONPATH c) (copy_table_queries cat ! 0)
     \<and> sublist (SONG_DATA c) (copy_table_queries cat ! 1)
     \<and> sublist (ARN c) (copy_table_queries cat ! 1)
     \<and> drop_table_queries cat = drop_table_queries cat'
     \<and> create_table_queries cat = create_table_queries cat'
     \<and> insert_table_queries cat = insert_table_queries cat'\<close>
proof -
  obtain cat where cat: "sql_queries c = Inr cat"
    by (simp add: sql_queries_def staging_events_copy_text staging_songs_copy_text)
  obtain cat' where cat': "sql_queries c' = Inr cat'"
    by (simp add: sql_queries_def staging_events_copy_text staging_songs_copy_text)
  from cat have copy: \<open>copy_table_queries cat =
         [''\<newline>    copy staging_events\<newline>    from '' @ LOG_DATA c @
          ''\<newline>    iam_role '' @ ARN c @
          ''\<newline>    format as json '' @ LOG_JSONPATH c @ ''\<newline>'',
          ''\<newline>    copy staging_songs\<newline>    from '' @ SONG_DATA c @
          ''\<newline>    iam_role '' @ ARN c @
          ''\<newline>    json 'auto'\<newline>'']\<close>
    by (auto simp: sql_queries_def staging_events_copy_text staging_songs_copy_text)
  have same: "drop_table_queries cat = drop_table_queries cat'"
    "create_table_queries cat = create_table_queries cat'"
    "insert_table_queries cat = insert_table_queries cat'"
    using cat cat'
    by (auto simp: sql_queries_def staging_events_copy_text staging_songs_copy_text)
  have s0: "sublist (LOG_DATA c) (copy_table_queries cat ! 0)"
    "sublist (ARN c) (copy_table_queries cat ! 0)"
    "sublist (LOG_JSONPATH c) (copy_table_queries cat ! 0)"
    unfolding copy nth_Cons_0
    by (rule sublist_inside sublist_inside2 sublist_inside3)+
  have s1: "sublist (SONG_DATA c) (copy_table_queries cat ! 1)"
    "sublist (ARN c) (copy_table_queries cat ! 1)"
    unfolding copy One_nat_def nth_Cons_Suc nth_Cons_0
    by (rule sublist_inside sublist_inside2)+
  from cat cat' copy s0 s1 same show ?thesis
    by blast
qed

subsection \<open>The sample run of the create flow\<close>

lemma demo_create_run:
  "main demo_env demo_cfg True False False init_world =
     (Inr (),
      \<lparr>calls =
         [Call ''get_role'' [] [(''RoleName'', AStr ''dwhRole'')],
          describe_clusters_call ''dwhCluster'',
          create_cluster_call (hw_params ''multi-node'' ''dc2.large'' None) ''dwh'' ''dwhCluster''
            ''dwhuser'' ''Passw0rd'' ''arn:aws:iam::123456789012:role/dwhRole'',
          describe_clusters_call ''dwhCluster'',
          describe_clusters_call ''dwhCluster'',
          describe_clusters_call ''dwhCluster''],
       stdout =
         [''Get the IAM Role: dwhRole'',
          ''Get Redshift cluster status: dwhCluster'',
          ''Create Redshift cluster: dwhCluster'',
          ''Get Redshift cluster status: dwhCluster'', ''creating'',
          ''Get Redshift cluster status: dwhCluster'', ''creating'',
          ''Get Redshift cluster status: dwhCluster''],
       slept = 30\<rparr>)"
  by (simp add: main_def create_flow_def create_cluster_if_absent_def
      get_iam_role_def create_redshift_cluster_def get_cluster_status_def try_except_print_def
      api_def cluster_status_of_def truthy_def subscript_def bind_def ret_def lift_def sleep_def
      print_line_def demo_env_def demo_cfg_def demo_role_def creating_script_def
      not_found_fault_def init_world_def eval_nat_numeral n_describe_def
      describe_clusters_call_def create_cluster_call_def hw_params_def
      del: n_describe_calls)

text \<open>
  C9 as stated fails on the sample run of the create flow: the fourth describe call
  observes \<open>'available'\<close>, the loop stops there, and the line \<open>'available'\<close> is never printed.
\<close>
theorem stopping_status_not_printed_counterexample:
  "cluster_status_of (describe_clusters demo_env 3) = Inr ''available''
   \<and> n_describe (snd (main demo_env demo_cfg True False False init_world)) = 4
   \<and> ''available'' \<notin> set (stdout (snd (main demo_env demo_cfg True False False init_world)))"
proof -
  have a: "cluster_status_of (describe_clusters demo_env 3) = Inr ''available''"
    by (simp add: demo_env_def creating_script_def cluster_status_of_def)
  have b: "n_describe (snd (main demo_env demo_cfg True False False init_world)) = 4"
    unfolding demo_create_run
    by (simp add: n_describe_def describe_clusters_call_def create_cluster_call_def)
  have c: "''available''
      \<notin> set (stdout (snd (main demo_env demo_cfg True False False init_world)))"
    unfolding demo_create_run by simp
  from a b c show ?thesis by (intro conjI)
qed

theorem create_polling_prints_statuses_before_stop_witness:
  "\<exists>w'. poll_loop ''available'' demo_env ''dwhCluster'' 10 init_world = (Inr (), w')
      \<and> stdout w' =
          [''Get Redshift cluster status: dwhCluster'', ''unknown'',
           ''Get Redshift cluster status: dwhCluster'', ''creating'',
           ''Get Redshift cluster status: dwhCluster'', ''creating'',
           ''Get Redshift cluster status: dwhCluster'']"
proof -
  have h2: "''available'' \<in> set [''unknown'', ''creating'', ''creating'', ''available'']
            \<or> 10 \<le> length [''unknown'', ''creating'', ''creating'', ''available'']"
    by simp
  have out: "poll_output ''dwhCluster'' 10 ''available''
               [''unknown'', ''creating'', ''creating'', ''available'']
             = [''Get Redshift cluster status: dwhCluster'', ''unknown'',
                ''Get Redshift cluster status: dwhCluster'', ''creating'',
                ''Get Redshift cluster status: dwhCluster'', ''creating'',
                ''Get Redshift cluster status: dwhCluster'']"
    by (simp add: poll_output_def)
  from create_polling_prints_statuses_before_stop[OF creating_script_statuses h2,
      of "''dwhCluster''"]
  obtain w' where "poll_loop ''available'' demo_env ''dwhCluster'' 10 init_world = (Inr (), w')"
    and "stdout w' = stdout init_world @ poll_output ''dwhCluster'' 10 ''available''
           [''unknown'', ''creating'', ''creating'', ''available'']"
    by blast
  then show ?thesis
    by (simp add: out)
qed

end
